theory Spec2Isabelle
  imports Complex_Main "HOL-Library.Stream" "HOL-Library.Sublist"
begin

section \<open>JavaScript values used by the campaign store\<close>

text \<open>
  The client is TypeScript. Its \<^verbatim>\<open>number\<close> is modelled by exact rationals (no NaN, no
  rounding), an optional property by \<open>option\<close> (\<open>None\<close> is \<^verbatim>\<open>undefined\<close>), an array by a list.
  A thrown value is a \<open>js_error\<close>: the SyntaxError of \<^verbatim>\<open>JSON.parse\<close> on a malformed text, the
  QuotaExceededError of a refused \<^verbatim>\<open>localStorage.setItem\<close>, the TypeError of a property read on
  \<^verbatim>\<open>null\<close> or of a call of something that is not a function, the error of a failed request of the
  HTTP client (with the status of the response, \<open>None\<close> when no response arrived), or
  \<^verbatim>\<open>new Error(message)\<close>.
\<close>

type_synonym number = rat

datatype js_error =
    SyntaxError
  | QuotaExceededError
  | TypeError
  | AxiosError "nat option"
  | Error string

text \<open>
  \<^verbatim>\<open>a || b\<close> on optional numbers: \<^verbatim>\<open>undefined\<close> and \<^verbatim>\<open>0\<close> are falsy, every other number
  is truthy. \<open>js_or_num\<close> is the same operator when the right operand is a number.
\<close>

definition truthy :: "number option \<Rightarrow> bool" where
  "truthy a = (case a of None \<Rightarrow> False | Some n \<Rightarrow> n \<noteq> 0)"

definition js_or :: "number option \<Rightarrow> number option \<Rightarrow> number option" where
  "js_or a b = (if truthy a then a else b)"

definition js_or_num :: "number option \<Rightarrow> number \<Rightarrow> number" where
  "js_or_num a b = (case a of None \<Rightarrow> b | Some n \<Rightarrow> if n \<noteq> 0 then n else b)"

text \<open>\<^verbatim>\<open>n || d\<close> on a page number or a page size (integers).\<close>

definition js_or_int :: "int option \<Rightarrow> int \<Rightarrow> int" where
  "js_or_int a d = (case a of None \<Rightarrow> d | Some n \<Rightarrow> if n \<noteq> 0 then n else d)"

text \<open>
  \<^verbatim>\<open>Array.prototype.findIndex\<close>: the index of the first element that satisfies the
  predicate, \<open>-1\<close> when there is none.
\<close>

fun findIndex_from :: "('a \<Rightarrow> bool) \<Rightarrow> 'a list \<Rightarrow> nat \<Rightarrow> int" where
  "findIndex_from p [] k = -1"
| "findIndex_from p (x # xs) k = (if p x then int k else findIndex_from p xs (Suc k))"

definition findIndex :: "('a \<Rightarrow> bool) \<Rightarrow> 'a list \<Rightarrow> int" where
  "findIndex p xs = findIndex_from p xs 0"

text \<open>
  \<^verbatim>\<open>Array.prototype.slice(start, end)\<close> with integer arguments: a negative index counts
  from the end of the array, and both are clamped to the array.
\<close>

definition slice_index :: "nat \<Rightarrow> int \<Rightarrow> nat" where
  "slice_index len i = (if i < 0 then nat (max (int len + i) 0) else min (nat i) len)"

definition slice :: "'a list \<Rightarrow> int \<Rightarrow> int \<Rightarrow> 'a list" where
  "slice xs start end' =
     (let k = slice_index (length xs) start;
          final = slice_index (length xs) end'
      in take (final - k) (drop k xs))"

text \<open>
  \<^verbatim>\<open>String.prototype.toLowerCase\<close> on the ASCII letters, and \<^verbatim>\<open>String.prototype.includes\<close>.
\<close>

definition lower_char :: "char \<Rightarrow> char" where
  "lower_char c =
     (case map_of (zip ''ABCDEFGHIJKLMNOPQRSTUVWXYZ'' ''abcdefghijklmnopqrstuvwxyz'') c of
        Some l \<Rightarrow> l
      | None \<Rightarrow> c)"

definition toLowerCase :: "string \<Rightarrow> string" where
  "toLowerCase s = map lower_char s"

fun includes_str :: "string \<Rightarrow> string \<Rightarrow> bool" where
  "includes_str [] sub = (sub = [])"
| "includes_str (x # xs) sub = (prefix sub (x # xs) \<or> includes_str xs sub)"

text \<open>\<^verbatim>\<open>Number.prototype.toString\<close> on a natural number: its decimal digits.\<close>

definition digit_char :: "nat \<Rightarrow> char" where
  "digit_char d = ''0123456789'' ! d"

fun toString :: "nat \<Rightarrow> string" where
  "toString n = (if n < 10 then [digit_char n] else toString (n div 10) @ [digit_char (n mod 10)])"

declare toString.simps [simp del]

text \<open>
  \<^verbatim>\<open>Date.prototype.toISOString\<close> of a reading of the millisecond clock (milliseconds
  since 1970-01-01T00:00:00.000Z): the proleptic Gregorian date and the time of day,
  \<^verbatim>\<open>YYYY-MM-DDTHH:mm:ss.sssZ\<close>, with the expanded six-digit year after the year 9999.
  The date of a day number is computed in 400-year eras that start on a 1st of March:
  \<open>doe\<close> is the day of the era, \<open>month_index\<close> counts the months from March.
\<close>

definition pad :: "nat \<Rightarrow> nat \<Rightarrow> string" where
  "pad width n = replicate (width - length (toString n)) (CHR ''0'') @ toString n"

definition year_of_era :: "nat \<Rightarrow> nat" where
  "year_of_era doe = (doe - doe div 1460 + doe div 36524 - doe div 146096) div 365"

definition day_of_year :: "nat \<Rightarrow> nat" where
  "day_of_year doe = doe - (365 * year_of_era doe + year_of_era doe div 4 - year_of_era doe div 100)"

definition month_index :: "nat \<Rightarrow> nat" where
  "month_index doe = (5 * day_of_year doe + 2) div 153"

definition day_of_month :: "nat \<Rightarrow> nat" where
  "day_of_month doe = day_of_year doe - (153 * month_index doe + 2) div 5 + 1"

definition month_of_year :: "nat \<Rightarrow> nat" where
  "month_of_year doe = (if month_index doe < 10 then month_index doe + 3 else month_index doe - 9)"

definition civil_from_days :: "nat \<Rightarrow> nat \<times> nat \<times> nat" where
  "civil_from_days days =
     (let era = (days + 719468) div 146097;
          doe = (days + 719468) mod 146097
      in (year_of_era doe + era * 400 + (if month_of_year doe \<le> 2 then 1 else 0),
          month_of_year doe, day_of_month doe))"

definition toISOString :: "nat \<Rightarrow> string" where
  "toISOString ms =
     (let (y, m, d) = civil_from_days (ms div 86400000);
          r = ms mod 86400000
      in (if y \<le> 9999 then pad 4 y else ''+'' @ pad 6 y) @ ''-'' @ pad 2 m @ ''-'' @ pad 2 d @ ''T''
         @ pad 2 (r div 3600000) @ '':'' @ pad 2 (r div 60000 mod 60) @ '':''
         @ pad 2 (r div 1000 mod 60) @ ''.'' @ pad 3 (r mod 1000) @ ''Z'')"

section \<open>The data model\<close>

text \<open>
  Modelled from the spec: the declarations of \<^verbatim>\<open>types/campaign\<close> (\<^verbatim>\<open>Campaign\<close>,
  \<^verbatim>\<open>CampaignCreate\<close>, \<^verbatim>\<open>CampaignUpdate\<close>, \<^verbatim>\<open>CampaignStats\<close>, \<^verbatim>\<open>CampaignFilters\<close>) are not
  among the sources. The fields are those the spec's data model lists and the code reads
  or writes; a property the code guards (\<^verbatim>\<open>c.stats?.views\<close>, \<^verbatim>\<open>c.views_count || 0\<close>,
  \<^verbatim>\<open>c.description && ...\<close>) or that only one of the two data sources fills is optional.
\<close>

datatype campaign_status = Draft | Active | Paused | Finished | Cancelled

datatype priority_level = Low | Medium | High | Urgent

record target_location =
  location_type :: string
  coordinates :: "number list"
  location_name :: string
  address :: string

record CampaignStats =
  views :: number
  clicks :: number
  conversions :: number
  spend :: number

record campaign =
  campaign_id :: string
  name :: string
  description :: "string option"
  budget :: number
  channel :: string
  start_date :: string
  end_date :: string
  status :: campaign_status
  user_id :: string
  priority :: priority_level
  target_locations :: "target_location list"
  media_files :: "string list"
  created_at :: string
  updated_at :: string
  createdAt :: "string option"
  updatedAt :: "string option"
  views_count :: "number option"
  clicks_count :: "number option"
  conversions_count :: "number option"
  stats :: "CampaignStats option"

record CampaignCreate =
  new_name :: string
  new_description :: "string option"
  new_budget :: number
  new_channel :: string
  new_start_date :: string
  new_end_date :: string
  new_priority :: "priority_level option"
  new_target_locations :: "target_location list option"
  new_media_files :: "string list option"

record CampaignUpdate =
  upd_name :: "string option"
  upd_description :: "string option"
  upd_budget :: "number option"
  upd_channel :: "string option"
  upd_start_date :: "string option"
  upd_end_date :: "string option"
  upd_status :: "campaign_status option"
  upd_priority :: "priority_level option"
  upd_target_locations :: "target_location list option"
  upd_media_files :: "string list option"

record CampaignFilters =
  filter_status :: "campaign_status option"
  filter_search :: "string option"
  filter_page :: "int option"
  filter_limit :: "int option"

datatype layout_mode = GridLayout | ListLayout

record DashboardWidgets =
  w_totalCampaigns :: bool
  w_activeCampaigns :: bool
  w_totalViews :: bool
  w_conversions :: bool
  w_totalSpend :: bool
  w_totalClicks :: bool

record DashboardCharts =
  performanceChart :: bool
  conversionChart :: bool
  spendChart :: bool

record DashboardConfig =
  widgets :: DashboardWidgets
  charts :: DashboardCharts
  layout :: layout_mode

definition defaultDashboardConfig :: DashboardConfig where
  "defaultDashboardConfig =
     \<lparr>widgets = \<lparr>w_totalCampaigns = True, w_activeCampaigns = True, w_totalViews = True,
                 w_conversions = True, w_totalSpend = True, w_totalClicks = True\<rparr>,
      charts = \<lparr>performanceChart = True, conversionChart = True, spendChart = True\<rparr>,
      layout = GridLayout\<rparr>"

section \<open>The browser around the code\<close>

text \<open>
  \<^verbatim>\<open>localStorage\<close> holds text, and \<^verbatim>\<open>JSON.parse\<close> makes a value of any well-formed text,
  whatever its shape. A stored text is kept as what \<^verbatim>\<open>JSON.parse\<close> makes of it:
  \<^item> \<open>Malformed s\<close> is a text \<open>s\<close> on which \<^verbatim>\<open>JSON.parse\<close> throws a SyntaxError (the empty text is
    one, and is the only falsy text);
  \<^item> \<open>Stringified v\<close> is the text \<^verbatim>\<open>JSON.stringify(v)\<close> of a value of the type the code gives the
    entry (\<^verbatim>\<open>Campaign[]\<close>, \<^verbatim>\<open>DashboardConfig\<close>), which parses back to \<open>v\<close>;
  \<^item> \<open>Foreign j\<close> is a well-formed text of any other value \<open>j\<close>, such as \<^verbatim>\<open>null\<close>, a number
    or an object with other keys: \<^verbatim>\<open>JSON.parse\<close> returns \<open>j\<close> and throws nothing.

  \<^verbatim>\<open>getItem\<close> gives \<open>None\<close> (\<^verbatim>\<open>null\<close>) for a key that was never written.

  A value that \<^verbatim>\<open>JSON.parse\<close> returns is \<open>Expected v\<close>, of the entry's type, or \<open>Unexpected j\<close>.
  For the dashboard entry \<open>j\<close> is any JSON value. For the campaigns entry \<open>j\<close> is any JSON
  value that is not an array (\<open>other_value\<close>): an array in that entry is taken to hold
  campaigns, since what the code does with the elements of an array of other values rests on
  JavaScript's conversions between types, which are not modelled.
\<close>

datatype json =
    JNull
  | JBool bool
  | JNum number
  | JStr string
  | JArr "json list"
  | JObj "(string \<times> json) list"

datatype other_value =
    NullValue
  | BooleanValue bool
  | NumberValue number
  | StringValue string
  | ObjectValue "(string \<times> json) list"

datatype ('a, 'f) json_text = Malformed string | Stringified 'a | Foreign 'f

datatype ('a, 'f) parsed = Expected 'a | Unexpected 'f

definition JSON_parse :: "('a, 'f) json_text \<Rightarrow> js_error + ('a, 'f) parsed" where
  "JSON_parse t =
     (case t of
        Malformed s \<Rightarrow> Inl SyntaxError
      | Stringified v \<Rightarrow> Inr (Expected v)
      | Foreign j \<Rightarrow> Inr (Unexpected j))"

definition JSON_stringify :: "'a \<Rightarrow> ('a, 'f) json_text" where
  "JSON_stringify v = Stringified v"

definition truthy_text :: "('a, 'f) json_text \<Rightarrow> bool" where
  "truthy_text t = (case t of Malformed s \<Rightarrow> s \<noteq> [] | Stringified v \<Rightarrow> True | Foreign j \<Rightarrow> True)"

text \<open>
  The world the functions run in: the two entries of \<^verbatim>\<open>localStorage\<close> (keys
  \<^verbatim>\<open>inmax_campaigns\<close> and \<^verbatim>\<open>inmax_dashboard_config\<close>), whether the storage accepts each of
  the coming \<^verbatim>\<open>setItem\<close> calls (a refused one throws QuotaExceededError), the coming
  readings of the millisecond clock (\<^verbatim>\<open>Date.now()\<close>, \<^verbatim>\<open>new Date()\<close>), the coming results of
  \<^verbatim>\<open>Math.random()\<close>, and the lines written to the console so far.
\<close>

record world =
  campaigns_item :: "(campaign list, other_value) json_text option"
  config_item :: "(DashboardConfig, json) json_text option"
  storage_accepts :: "bool stream"
  clock :: "nat stream"
  random :: "number stream"
  console :: "string list"

definition console_write :: "string \<Rightarrow> world \<Rightarrow> world" where
  "console_write line w = w\<lparr>console := console w @ [line]\<rparr>"

definition Date_now :: "world \<Rightarrow> nat \<times> world" where
  "Date_now w = (shd (clock w), w\<lparr>clock := stl (clock w)\<rparr>)"

definition new_Date_toISOString :: "world \<Rightarrow> string \<times> world" where
  "new_Date_toISOString w = (toISOString (shd (clock w)), w\<lparr>clock := stl (clock w)\<rparr>)"

definition Math_random :: "world \<Rightarrow> number \<times> world" where
  "Math_random w = (shd (random w), w\<lparr>random := stl (random w)\<rparr>)"

definition setItem_campaigns ::
    "(campaign list, other_value) json_text \<Rightarrow> world \<Rightarrow> (js_error + unit) \<times> world" where
  "setItem_campaigns t w =
     (if shd (storage_accepts w)
      then (Inr (), w\<lparr>campaigns_item := Some t, storage_accepts := stl (storage_accepts w)\<rparr>)
      else (Inl QuotaExceededError, w\<lparr>storage_accepts := stl (storage_accepts w)\<rparr>))"

definition setItem_config ::
    "(DashboardConfig, json) json_text \<Rightarrow> world \<Rightarrow> (js_error + unit) \<times> world" where
  "setItem_config t w =
     (if shd (storage_accepts w)
      then (Inr (), w\<lparr>config_item := Some t, storage_accepts := stl (storage_accepts w)\<rparr>)
      else (Inl QuotaExceededError, w\<lparr>storage_accepts := stl (storage_accepts w)\<rparr>))"

section \<open>The local store (localStorage.ts)\<close>

text \<open>
  \<open>getCampaigns_try\<close> is the body of the \<^verbatim>\<open>try\<close> block of \<^verbatim>\<open>getCampaigns\<close>; the \<^verbatim>\<open>catch\<close>
  block writes to the console and returns the empty array. The function checks nothing
  about what \<^verbatim>\<open>JSON.parse\<close> returns: its result is \<open>Expected\<close> a campaign sequence, or
  \<open>Unexpected\<close> another value, returned as it is.
\<close>

definition getCampaigns_try :: "world \<Rightarrow> js_error + (campaign list, other_value) parsed" where
  "getCampaigns_try w =
     (case campaigns_item w of
        None \<Rightarrow> Inr (Expected [])
      | Some campaigns \<Rightarrow> if truthy_text campaigns then JSON_parse campaigns else Inr (Expected []))"

definition getCampaigns :: "world \<Rightarrow> (campaign list, other_value) parsed \<times> world" where
  "getCampaigns w =
     (case getCampaigns_try w of
        Inr campaigns \<Rightarrow> (campaigns, w)
      | Inl error \<Rightarrow> (Expected [], console_write ''Error loading campaigns:'' w))"

definition saveCampaigns :: "campaign list \<Rightarrow> world \<Rightarrow> world" where
  "saveCampaigns campaigns w =
     (case setItem_campaigns (JSON_stringify campaigns) w of
        (Inr u, w') \<Rightarrow> w'
      | (Inl error, w') \<Rightarrow> console_write ''Error saving campaigns:'' w')"

text \<open>
  The functions that follow call array methods on what \<open>getCampaigns\<close> returns
  (\<^verbatim>\<open>push\<close>, \<^verbatim>\<open>findIndex\<close>, \<^verbatim>\<open>filter\<close>, \<^verbatim>\<open>find\<close>, \<^verbatim>\<open>reduce\<close>). On \<^verbatim>\<open>null\<close> the property read throws a
  TypeError; a boolean, a number, a string and an object parsed from JSON have no function
  under these names, so the call throws a TypeError. None of these functions catches it: the
  result is \<open>Inl\<close> the error thrown to the caller, or \<open>Inr\<close> the value returned.

  \<open>addCampaign\<close>: the properties of the object literal are evaluated in the order written,
  \<^verbatim>\<open>Date.now()\<close> for the id first and then four times \<^verbatim>\<open>new Date()\<close>, each its own reading of
  the clock. The spread of \<open>campaignData\<close> copies the fields of the input; the properties
  written after it (status, owner, priority, locations, media files) replace what it copied.
  \<^verbatim>\<open>campaigns.push\<close> comes after the literal, and appends to the array that was read.
\<close>

definition addCampaign :: "CampaignCreate \<Rightarrow> world \<Rightarrow> (js_error + campaign) \<times> world" where
  "addCampaign campaignData w =
     (let (campaigns, w0) = getCampaigns w;
          (now, w1) = Date_now w0;
          (t1, w2) = new_Date_toISOString w1;
          (t2, w3) = new_Date_toISOString w2;
          (t3, w4) = new_Date_toISOString w3;
          (t4, w5) = new_Date_toISOString w4;
          newCampaign =
            \<lparr>campaign_id = toString now,
             name = new_name campaignData,
             description = new_description campaignData,
             budget = new_budget campaignData,
             channel = new_channel campaignData,
             start_date = new_start_date campaignData,
             end_date = new_end_date campaignData,
             status = Draft,
             user_id = ''1'',
             priority = (case new_priority campaignData of Some p \<Rightarrow> p | None \<Rightarrow> Medium),
             target_locations = (case new_target_locations campaignData of Some ls \<Rightarrow> ls | None \<Rightarrow> []),
             media_files = (case new_media_files campaignData of Some ms \<Rightarrow> ms | None \<Rightarrow> []),
             created_at = t1,
             updated_at = t2,
             createdAt = Some t3,
             updatedAt = Some t4,
             views_count = Some 0,
             clicks_count = Some 0,
             conversions_count = Some 0,
             stats = Some \<lparr>views = 0, clicks = 0, conversions = 0, spend = 0\<rparr>\<rparr>
      in case campaigns of
           Unexpected j \<Rightarrow> (Inl TypeError, w5)
         | Expected cs \<Rightarrow> (Inr newCampaign, saveCampaigns (cs @ [newCampaign]) w5))"

text \<open>The object spread \<^verbatim>\<open>{...campaign, ...updates}\<close>: a key of \<open>updates\<close> replaces the campaign's.\<close>

definition spread_updates :: "campaign \<Rightarrow> CampaignUpdate \<Rightarrow> campaign" where
  "spread_updates c updates =
     c\<lparr>name := (case upd_name updates of Some v \<Rightarrow> v | None \<Rightarrow> name c),
       description := (case upd_description updates of Some v \<Rightarrow> Some v | None \<Rightarrow> description c),
       budget := (case upd_budget updates of Some v \<Rightarrow> v | None \<Rightarrow> budget c),
       channel := (case upd_channel updates of Some v \<Rightarrow> v | None \<Rightarrow> channel c),
       start_date := (case upd_start_date updates of Some v \<Rightarrow> v | None \<Rightarrow> start_date c),
       end_date := (case upd_end_date updates of Some v \<Rightarrow> v | None \<Rightarrow> end_date c),
       status := (case upd_status updates of Some v \<Rightarrow> v | None \<Rightarrow> status c),
       priority := (case upd_priority updates of Some v \<Rightarrow> v | None \<Rightarrow> priority c),
       target_locations := (case upd_target_locations updates of Some v \<Rightarrow> v | None \<Rightarrow> target_locations c),
       media_files := (case upd_media_files updates of Some v \<Rightarrow> v | None \<Rightarrow> media_files c)\<rparr>"

text \<open>
  \<open>updateCampaign\<close>: \<open>Inr None\<close> is the \<^verbatim>\<open>null\<close> returned when no campaign has the id. The
  index that \<open>findIndex\<close> returns is within the array when it is not \<open>-1\<close>.
\<close>

definition updateCampaign ::
    "string \<Rightarrow> CampaignUpdate \<Rightarrow> world \<Rightarrow> (js_error + campaign option) \<times> world" where
  "updateCampaign i updates w =
     (let (campaigns, w0) = getCampaigns w
      in case campaigns of
           Unexpected j \<Rightarrow> (Inl TypeError, w0)
         | Expected cs \<Rightarrow>
             let index = findIndex (\<lambda>c. campaign_id c = i) cs
             in if index = -1 then (Inr None, w0)
                else
                  let (t1, w1) = new_Date_toISOString w0;
                      (t2, w2) = new_Date_toISOString w1;
                      cs' = cs[nat index :=
                        (spread_updates (cs ! nat index) updates)\<lparr>updated_at := t1, updatedAt := Some t2\<rparr>]
                  in (Inr (Some (cs' ! nat index)), saveCampaigns cs' w2))"

definition deleteCampaign :: "string \<Rightarrow> world \<Rightarrow> (js_error + bool) \<times> world" where
  "deleteCampaign i w =
     (let (campaigns, w0) = getCampaigns w
      in case campaigns of
           Unexpected j \<Rightarrow> (Inl TypeError, w0)
         | Expected cs \<Rightarrow>
             let filteredCampaigns = filter (\<lambda>c. campaign_id c \<noteq> i) cs
             in if length filteredCampaigns = length cs then (Inr False, w0)
                else (Inr True, saveCampaigns filteredCampaigns w0))"

definition getCampaignById :: "string \<Rightarrow> world \<Rightarrow> (js_error + campaign option) \<times> world" where
  "getCampaignById i w =
     (let (campaigns, w0) = getCampaigns w
      in case campaigns of
           Unexpected j \<Rightarrow> (Inl TypeError, w0)
         | Expected cs \<Rightarrow> (Inr (find (\<lambda>c. campaign_id c = i) cs), w0))"

text \<open>
  \<open>getDashboardConfig\<close> returns what \<^verbatim>\<open>JSON.parse\<close> returns, again without a check: a
  configuration, or another value as it is.
\<close>

definition getDashboardConfig_try :: "world \<Rightarrow> js_error + (DashboardConfig, json) parsed" where
  "getDashboardConfig_try w =
     (case config_item w of
        None \<Rightarrow> Inr (Expected defaultDashboardConfig)
      | Some config \<Rightarrow>
          if truthy_text config then JSON_parse config else Inr (Expected defaultDashboardConfig))"

definition getDashboardConfig :: "world \<Rightarrow> (DashboardConfig, json) parsed \<times> world" where
  "getDashboardConfig w =
     (case getDashboardConfig_try w of
        Inr config \<Rightarrow> (config, w)
      | Inl error \<Rightarrow>
          (Expected defaultDashboardConfig, console_write ''Error loading dashboard config:'' w))"

definition saveDashboardConfig :: "DashboardConfig \<Rightarrow> world \<Rightarrow> world" where
  "saveDashboardConfig config w =
     (case setItem_config (JSON_stringify config) w of
        (Inr u, w') \<Rightarrow> w'
      | (Inl error, w') \<Rightarrow> console_write ''Error saving dashboard config:'' w')"

section \<open>The stats engine (localStorage.ts)\<close>

text \<open>
  A metric is the pair \<^verbatim>\<open>{value, change}\<close>, with \<open>metric_value\<close> for the key \<^verbatim>\<open>value\<close>; in the
  result, \<open>totalConversions\<close> is the key \<^verbatim>\<open>conversions\<close>. \<^verbatim>\<open>Math.floor\<close> is \<open>floor\<close>; \<^verbatim>\<open>Math.round\<close>
  rounds a half upwards. Each call of \<open>calculatePercentageChange\<close> draws one random number.
  On a value that is not an array, \<^verbatim>\<open>campaigns.length\<close> (on \<^verbatim>\<open>null\<close>) or \<^verbatim>\<open>campaigns.filter\<close>
  throws before any random number is drawn.
\<close>

record metric =
  metric_value :: number
  change :: number

record RealStats =
  totalCampaigns :: metric
  activeCampaigns :: metric
  totalViews :: metric
  totalClicks :: metric
  totalConversions :: metric
  totalSpend :: metric

definition Math_round :: "number \<Rightarrow> int" where
  "Math_round x = \<lfloor>x + 1 / 2\<rfloor>"

definition calculatePercentageChange :: "number \<Rightarrow> world \<Rightarrow> number \<times> world" where
  "calculatePercentageChange current w =
     (let (r, w') = Math_random w;
          previous = max 0 (current - of_int \<lfloor>r * current * (3 / 10)\<rfloor>)
      in (if previous > 0 then of_int (Math_round (((current - previous) / previous) * 100)) else 0, w'))"

definition calculateRealStats :: "world \<Rightarrow> (js_error + RealStats) \<times> world" where
  "calculateRealStats w =
     (let (campaigns, w0) = getCampaigns w
      in case campaigns of
           Unexpected j \<Rightarrow> (Inl TypeError, w0)
         | Expected cs \<Rightarrow>
             let nCampaigns = of_nat (length cs);
                 nActive = of_nat (length (filter (\<lambda>c. status c = Active) cs));
                 sumViews = foldl (\<lambda>sum c. sum + js_or_num (js_or (map_option views (stats c)) (views_count c)) 0) 0 cs;
                 sumClicks = foldl (\<lambda>sum c. sum + js_or_num (js_or (map_option clicks (stats c)) (clicks_count c)) 0) 0 cs;
                 sumConversions = foldl (\<lambda>sum c. sum + js_or_num (js_or (map_option conversions (stats c)) (conversions_count c)) 0) 0 cs;
                 sumSpend = foldl (\<lambda>sum c. sum + js_or_num (js_or (map_option spend (stats c)) (Some (budget c))) 0) 0 cs;
                 (c1, w1) = calculatePercentageChange nCampaigns w0;
                 (c2, w2) = calculatePercentageChange nActive w1;
                 (c3, w3) = calculatePercentageChange sumViews w2;
                 (c4, w4) = calculatePercentageChange sumClicks w3;
                 (c5, w5) = calculatePercentageChange sumConversions w4;
                 (c6, w6) = calculatePercentageChange sumSpend w5
             in (Inr \<lparr>totalCampaigns = \<lparr>metric_value = nCampaigns, change = c1\<rparr>,
                      activeCampaigns = \<lparr>metric_value = nActive, change = c2\<rparr>,
                      totalViews = \<lparr>metric_value = sumViews, change = c3\<rparr>,
                      totalClicks = \<lparr>metric_value = sumClicks, change = c4\<rparr>,
                      totalConversions = \<lparr>metric_value = sumConversions, change = c5\<rparr>,
                      totalSpend = \<lparr>metric_value = sumSpend, change = c6\<rparr>\<rparr>, w6))"

section \<open>The campaign service (campaignService.ts)\<close>

text \<open>
  Each method awaits one call of the HTTP client \<^verbatim>\<open>api\<close>, which is not among the sources.
  The outcome of that call is the first argument: \<open>Inr\<close> the data of the response,
  \<open>Inl\<close> the error the client throws (\<open>AxiosError (Some 404)\<close> for a 404 response,
  \<open>AxiosError None\<close> when no response arrives). The result of a method is \<open>Inl\<close> the error it
  throws to its caller, or \<open>Inr\<close> the value it returns. An error thrown inside a \<^verbatim>\<open>catch\<close>
  block, by the method itself or by a function of the local store, goes to the caller.

  In the fallback of \<open>getCampaigns\<close>, \<^verbatim>\<open>filter\<close> is called only for a status or a search
  filter, and \<^verbatim>\<open>slice\<close> and \<^verbatim>\<open>length\<close> always. A string has \<^verbatim>\<open>slice\<close> and \<^verbatim>\<open>length\<close>, so when the
  stored text is a JSON string and no such filter is given, the result holds a piece of that
  string (\<open>Characters\<close>) in the place of the campaigns (\<open>Items\<close>).
\<close>

datatype page_items = Items "campaign list" | Characters string

record CampaignPage =
  campaigns :: page_items
  total :: nat

record DashboardStats =
  total_campaigns :: number
  active_campaigns :: number
  total_views :: number
  total_clicks :: number
  total_conversions :: number
  total_spent :: number

definition matches_search :: "string \<Rightarrow> campaign \<Rightarrow> bool" where
  "matches_search searchLower c =
     (includes_str (toLowerCase (name c)) searchLower \<or>
      (case description c of
         None \<Rightarrow> False
       | Some d \<Rightarrow> d \<noteq> [] \<and> includes_str (toLowerCase d) searchLower))"

definition apply_filters :: "CampaignFilters option \<Rightarrow> campaign list \<Rightarrow> campaign list" where
  "apply_filters filters allCampaigns =
     (case filters of
        None \<Rightarrow> allCampaigns
      | Some f \<Rightarrow>
          let byStatus = (case filter_status f of
                            Some s \<Rightarrow> filter (\<lambda>c. status c = s) allCampaigns
                          | None \<Rightarrow> allCampaigns)
          in (case filter_search f of
                Some q \<Rightarrow> if q \<noteq> [] then filter (matches_search (toLowerCase q)) byStatus else byStatus
              | None \<Rightarrow> byStatus))"

text \<open>Whether the filter object makes the fallback call \<^verbatim>\<open>filter\<close>.\<close>

definition calls_filter :: "CampaignFilters option \<Rightarrow> bool" where
  "calls_filter filters =
     (case filters of
        None \<Rightarrow> False
      | Some f \<Rightarrow>
          filter_status f \<noteq> None \<or> (case filter_search f of Some q \<Rightarrow> q \<noteq> [] | None \<Rightarrow> False))"

definition campaignService_getCampaigns ::
    "js_error + CampaignPage \<Rightarrow> CampaignFilters option \<Rightarrow> world \<Rightarrow> (js_error + CampaignPage) \<times> world" where
  "campaignService_getCampaigns api filters w =
     (case api of
        Inr data \<Rightarrow> (Inr data, w)
      | Inl error \<Rightarrow>
          let (allCampaigns, w0) = getCampaigns (console_write ''API not available, using localStorage'' w);
              page = (case filters of None \<Rightarrow> None | Some f \<Rightarrow> filter_page f);
              limit = (case filters of None \<Rightarrow> None | Some f \<Rightarrow> filter_limit f);
              start = (case page of
                         None \<Rightarrow> 0
                       | Some p \<Rightarrow> if p \<noteq> 0 then (p - 1) * js_or_int limit 10 else 0);
              end' = start + js_or_int limit 10
          in case allCampaigns of
               Expected cs \<Rightarrow>
                 let filteredCampaigns = apply_filters filters cs
                 in (Inr \<lparr>campaigns = Items (slice filteredCampaigns start end'),
                          total = length filteredCampaigns\<rparr>, w0)
             | Unexpected j \<Rightarrow>
                 if calls_filter filters then (Inl TypeError, w0)
                 else (case j of
                         StringValue s \<Rightarrow>
                           (Inr \<lparr>campaigns = Characters (slice s start end'), total = length s\<rparr>, w0)
                       | _ \<Rightarrow> (Inl TypeError, w0)))"

definition campaignService_getCampaign ::
    "js_error + campaign \<Rightarrow> string \<Rightarrow> world \<Rightarrow> (js_error + campaign) \<times> world" where
  "campaignService_getCampaign api i w =
     (case api of
        Inr data \<Rightarrow> (Inr data, w)
      | Inl error \<Rightarrow>
          (case getCampaignById i w of
             (Inl thrown, w0) \<Rightarrow> (Inl thrown, w0)
           | (Inr None, w0) \<Rightarrow> (Inl (Error ''Campaign not found''), w0)
           | (Inr (Some c), w0) \<Rightarrow> (Inr c, w0)))"

definition campaignService_createCampaign ::
    "js_error + campaign \<Rightarrow> CampaignCreate \<Rightarrow> world \<Rightarrow> (js_error + campaign) \<times> world" where
  "campaignService_createCampaign api data w =
     (case api of
        Inr created \<Rightarrow> (Inr created, w)
      | Inl error \<Rightarrow> addCampaign data (console_write ''API not available, saving to localStorage'' w))"

definition campaignService_updateCampaign ::
    "js_error + campaign \<Rightarrow> string \<Rightarrow> CampaignUpdate \<Rightarrow> world \<Rightarrow> (js_error + campaign) \<times> world" where
  "campaignService_updateCampaign api i data w =
     (case api of
        Inr updated \<Rightarrow> (Inr updated, w)
      | Inl error \<Rightarrow>
          (case updateCampaign i data w of
             (Inl thrown, w0) \<Rightarrow> (Inl thrown, w0)
           | (Inr None, w0) \<Rightarrow> (Inl (Error ''Campaign not found''), w0)
           | (Inr (Some updatedCampaign), w0) \<Rightarrow> (Inr updatedCampaign, w0)))"

definition campaignService_deleteCampaign ::
    "js_error + unit \<Rightarrow> string \<Rightarrow> world \<Rightarrow> (js_error + unit) \<times> world" where
  "campaignService_deleteCampaign api i w =
     (case api of
        Inr u \<Rightarrow> (Inr (), w)
      | Inl error \<Rightarrow>
          (case deleteCampaign i w of
             (Inl thrown, w0) \<Rightarrow> (Inl thrown, w0)
           | (Inr False, w0) \<Rightarrow> (Inl (Error ''Campaign not found''), w0)
           | (Inr True, w0) \<Rightarrow> (Inr (), w0)))"

definition campaignService_getCampaignStats ::
    "js_error + CampaignStats \<Rightarrow> string \<Rightarrow> world \<Rightarrow> (js_error + CampaignStats) \<times> world" where
  "campaignService_getCampaignStats api i w =
     (case api of
        Inr data \<Rightarrow> (Inr data, w)
      | Inl error \<Rightarrow>
          (case getCampaignById i w of
             (Inl thrown, w0) \<Rightarrow> (Inl thrown, w0)
           | (Inr None, w0) \<Rightarrow> (Inl (Error ''Campaign not found''), w0)
           | (Inr (Some c), w0) \<Rightarrow>
               (Inr (case stats c of
                       Some s \<Rightarrow> s
                     | None \<Rightarrow> \<lparr>views = js_or_num (views_count c) 0,
                                clicks = js_or_num (clicks_count c) 0,
                                conversions = js_or_num (conversions_count c) 0,
                                spend = js_or_num (Some (budget c)) 0\<rparr>), w0)))"

definition campaignService_getDashboardStats ::
    "js_error + DashboardStats \<Rightarrow> world \<Rightarrow> (js_error + DashboardStats) \<times> world" where
  "campaignService_getDashboardStats api w =
     (case api of
        Inr data \<Rightarrow> (Inr data, w)
      | Inl error \<Rightarrow>
          (case calculateRealStats w of
             (Inl thrown, w0) \<Rightarrow> (Inl thrown, w0)
           | (Inr s, w0) \<Rightarrow>
               (Inr \<lparr>total_campaigns = metric_value (totalCampaigns s),
                     active_campaigns = metric_value (activeCampaigns s),
                     total_views = metric_value (totalViews s),
                     total_clicks = metric_value (totalClicks s),
                     total_conversions = metric_value (totalConversions s),
                     total_spent = metric_value (totalSpend s)\<rparr>, w0)))"

section \<open>Creating several campaigns in one run\<close>

text \<open>
  \<open>addCampaigns\<close> calls \<open>addCampaign\<close> once for each element of a list of inputs, one call
  after the other in the same world, and collects what the calls return or throw.
\<close>

fun addCampaigns :: "CampaignCreate list \<Rightarrow> world \<Rightarrow> (js_error + campaign) list \<times> world" where
  "addCampaigns [] w = ([], w)"
| "addCampaigns (d # ds) w =
     (let (r, w1) = addCampaign d w;
          (rs, w2) = addCampaigns ds w1
      in (r # rs, w2))"

section \<open>The reading rule for a metric\<close>

text \<open>
  \<open>read_nested_else_flat\<close> is the rule in the specification's words: the nested value if
  present, else the flat counter, else zero. \<open>read_nonzero_nested_else_flat\<close> differs in one
  case: a nested value that is zero counts as absent.
\<close>

definition read_nested_else_flat :: "number option \<Rightarrow> number option \<Rightarrow> number" where
  "read_nested_else_flat nested_value flat_counter =
     (case nested_value of
        Some v \<Rightarrow> v
      | None \<Rightarrow> (case flat_counter of Some v \<Rightarrow> v | None \<Rightarrow> 0))"

definition read_nonzero_nested_else_flat :: "number option \<Rightarrow> number option \<Rightarrow> number" where
  "read_nonzero_nested_else_flat nested_value flat_counter =
     (case nested_value of
        Some v \<Rightarrow> if v \<noteq> 0 then v else (case flat_counter of Some v' \<Rightarrow> v' | None \<Rightarrow> 0)
      | None \<Rightarrow> (case flat_counter of Some v \<Rightarrow> v | None \<Rightarrow> 0))"

section \<open>Decimal digits read back\<close>

text \<open>The number that a string of decimal digits denotes: the inverse of \<open>toString\<close>.\<close>

definition digit_value :: "char \<Rightarrow> nat" where
  "digit_value c = (case map_of (zip ''0123456789'' [0, 1, 2, 3, 4, 5, 6, 7, 8, 9]) c of Some d \<Rightarrow> d | None \<Rightarrow> 0)"

definition parse_digits :: "string \<Rightarrow> nat" where
  "parse_digits s = foldl (\<lambda>a c. 10 * a + digit_value c) 0 s"

section \<open>Example data\<close>

text \<open>
  Data for the examples: a stored campaign whose id is the decimal rendering of \<open>n\<close>; a
  world whose storage holds a given campaign sequence and accepts every write; the empty
  filter object; campaigns that hold their counters in the nested shape only, in the flat
  shape only, or in both with a zero nested value; a world whose random numbers change
  after the first six draws; a world whose stored texts are malformed and whose storage
  refuses every write; the input of the specification's end-to-end scenario; the update
  object without any key; a stored campaign in the shape \<open>addCampaign\<close> gives its
  records; a world like the first whose storage refuses every write; and a world whose two
  entries hold the well-formed text \<^verbatim>\<open>null\<close>.
\<close>

definition example_campaign :: "nat \<Rightarrow> campaign" where
  "example_campaign n =
     \<lparr>campaign_id = toString n, name = ''Campaign'', description = None, budget = 1000,
      channel = ''display'', start_date = ''2024-11-01'', end_date = ''2024-11-30'',
      status = Draft, user_id = ''1'', priority = Medium, target_locations = [], media_files = [],
      created_at = ''2024-11-01T00:00:00.000Z'', updated_at = ''2024-11-01T00:00:00.000Z'',
      createdAt = None, updatedAt = None,
      views_count = Some 0, clicks_count = Some 0, conversions_count = Some 0, stats = None\<rparr>"

definition example_world :: "campaign list \<Rightarrow> nat stream \<Rightarrow> world" where
  "example_world cs ticks =
     \<lparr>campaigns_item = Some (JSON_stringify cs), config_item = None,
      storage_accepts = sconst True, clock = ticks, random = sconst (1 / 2), console = []\<rparr>"

definition no_filters :: CampaignFilters where
  "no_filters = \<lparr>filter_status = None, filter_search = None, filter_page = None, filter_limit = None\<rparr>"

definition zero_nested_campaign :: campaign where
  "zero_nested_campaign =
     (example_campaign 101)\<lparr>views_count := Some 7,
        stats := Some \<lparr>views = 0, clicks = 0, conversions = 0, spend = 0\<rparr>\<rparr>"

definition nested_campaign :: "nat \<Rightarrow> number \<Rightarrow> number \<Rightarrow> campaign" where
  "nested_campaign n v c =
     (example_campaign n)\<lparr>views_count := None, clicks_count := None,
        stats := Some \<lparr>views = v, clicks = c, conversions = 0, spend = 0\<rparr>\<rparr>"

definition flat_campaign :: "nat \<Rightarrow> number \<Rightarrow> number \<Rightarrow> campaign" where
  "flat_campaign n v c = (example_campaign n)\<lparr>views_count := Some v, clicks_count := Some c\<rparr>"

definition changing_world :: world where
  "changing_world =
     (example_world (map example_campaign [1..<21]) (sconst 0))\<lparr>random := replicate 6 (1 / 2) @- sconst 0\<rparr>"

definition corrupt_world :: world where
  "corrupt_world =
     \<lparr>campaigns_item = Some (Malformed ''[{''), config_item = Some (Malformed ''{''),
      storage_accepts = sconst False, clock = sconst 0, random = sconst 0, console = []\<rparr>"

definition example_create :: CampaignCreate where
  "example_create =
     \<lparr>new_name = ''Black Friday'', new_description = None, new_budget = 1000,
      new_channel = ''display'', new_start_date = ''2024-11-01'', new_end_date = ''2024-11-30'',
      new_priority = None, new_target_locations = None, new_media_files = None\<rparr>"

definition no_updates :: CampaignUpdate where
  "no_updates =
     \<lparr>upd_name = None, upd_description = None, upd_budget = None, upd_channel = None,
      upd_start_date = None, upd_end_date = None, upd_status = None, upd_priority = None,
      upd_target_locations = None, upd_media_files = None\<rparr>"

definition local_campaign :: campaign where
  "local_campaign =
     (example_campaign 101)\<lparr>createdAt := Some ''2024-11-01T00:00:00.000Z'',
        updatedAt := Some ''2024-11-01T00:00:00.000Z'',
        stats := Some \<lparr>views = 0, clicks = 0, conversions = 0, spend = 0\<rparr>\<rparr>"

definition refusing_world :: "campaign list \<Rightarrow> nat stream \<Rightarrow> world" where
  "refusing_world cs ticks = (example_world cs ticks)\<lparr>storage_accepts := sconst False\<rparr>"

definition null_world :: world where
  "null_world =
     \<lparr>campaigns_item = Some (Foreign NullValue), config_item = Some (Foreign JNull),
      storage_accepts = sconst True, clock = sconst 0, random = sconst 0, console = []\<rparr>"

section \<open>Properties\<close>

subsection \<open>Arrays and numbers\<close>

lemma slice_nonneg:
  assumes "0 \<le> start" and "0 \<le> len"
  shows "slice xs start (start + len) = take (nat len) (drop (nat start) xs)"
proof (cases "nat start < length xs")
  case False
  with assms show ?thesis
    by (simp add: slice_def slice_index_def Let_def min_def)
next
  case True
  show ?thesis
  proof (cases "nat (start + len) \<le> length xs")
    case True
    with assms \<open>nat start < length xs\<close> show ?thesis
      by (simp add: slice_def slice_index_def Let_def min_def nat_add_distrib)
  next
    case False
    with assms \<open>nat start < length xs\<close> show ?thesis
      by (simp add: slice_def slice_index_def Let_def min_def nat_add_distrib)
  qed
qed

lemma take_drop_nth:
  "m + n \<le> length xs \<Longrightarrow> take n (drop m xs) = map (\<lambda>k. xs ! k) [m..<m + n]"
  by (intro nth_equalityI) simp_all

lemma length_filter_eq: "(length (filter P xs) = length xs) = (\<forall>x\<in>set xs. P x)"
proof
  assume len: "length (filter P xs) = length xs"
  show "\<forall>x\<in>set xs. P x"
  proof
    fix x assume "x \<in> set xs"
    then show "P x" using len length_filter_less [of x xs P] by auto
  qed
next
  assume "\<forall>x\<in>set xs. P x"
  then show "length (filter P xs) = length xs" by simp
qed

lemma findIndex_from_eq:
  "findIndex_from p xs k =
     (if \<exists>x\<in>set xs. p x then int (k + length (takeWhile (\<lambda>x. \<not> p x) xs)) else -1)"
  by (induction xs arbitrary: k) auto

lemma findIndex_eq:
  "findIndex p xs = (if \<exists>x\<in>set xs. p x then int (length (takeWhile (\<lambda>x. \<not> p x) xs)) else -1)"
  by (simp add: findIndex_def findIndex_from_eq)

lemma find_first:
  "find p xs = Some c \<Longrightarrow>
   (\<exists>x\<in>set xs. p x) \<and> length (takeWhile (\<lambda>x. \<not> p x) xs) < length xs
   \<and> xs ! length (takeWhile (\<lambda>x. \<not> p x) xs) = c"
  by (induction xs) (auto split: if_splits)

lemma foldl_plus: "foldl (\<lambda>sum c. sum + f c) a xs = a + sum_list (map f xs)"
  for a :: number
  by (induction xs arbitrary: a) (simp_all add: add.assoc)

lemma digit_value_digit_char: "d < 10 \<Longrightarrow> digit_value (digit_char d) = d"
proof -
  assume "d < 10"
  then have "d = 0 \<or> d = 1 \<or> d = 2 \<or> d = 3 \<or> d = 4 \<or> d = 5 \<or> d = 6 \<or> d = 7 \<or> d = 8 \<or> d = 9"
    by arith
  then show ?thesis
    by (elim disjE) (simp_all add: digit_value_def digit_char_def)
qed

lemma parse_digits_toString: "parse_digits (toString n) = n"
proof (induction n rule: toString.induct)
  case (1 n)
  show ?case
  proof (cases "n < 10")
    case True
    then show ?thesis
      by (simp add: toString.simps [of n] parse_digits_def digit_value_digit_char)
  next
    case False
    with 1 have "parse_digits (toString (n div 10)) = n div 10" by simp
    with False show ?thesis
      by (simp add: toString.simps [of n] parse_digits_def digit_value_digit_char)
  qed
qed

lemma toString_inj: "inj toString"
  by (rule inj_on_inverseI [where g = parse_digits]) (rule parse_digits_toString)

lemma toString_examples: "toString 101 = ''101''" "toString 102 = ''102''"
  by (simp_all add: toString.simps digit_char_def)

lemma toString_example_ms: "toString 1730505600123 = ''1730505600123''"
  by (simp add: toString.simps digit_char_def)

lemma civil_example: "civil_from_days 20029 = (2024, 11, 2)"
  by (simp add: civil_from_days_def year_of_era_def day_of_year_def month_index_def
      day_of_month_def month_of_year_def)

lemma toISOString_examples:
  "toISOString 1730505600123 = ''2024-11-02T00:00:00.123Z''"
  "toISOString 1730505600124 = ''2024-11-02T00:00:00.124Z''"
  "toISOString 1730505600125 = ''2024-11-02T00:00:00.125Z''"
  by (simp_all add: toISOString_def civil_example pad_def toString.simps digit_char_def)

subsection \<open>Reading and writing the store\<close>

lemma getCampaigns_console_write:
  "fst (getCampaigns (console_write l w)) = fst (getCampaigns w)"
  by (simp add: getCampaigns_def getCampaigns_try_def console_write_def split: option.splits sum.splits)

lemma getCampaigns_world:
  "campaigns_item (snd (getCampaigns w)) = campaigns_item w"
  "config_item (snd (getCampaigns w)) = config_item w"
  "storage_accepts (snd (getCampaigns w)) = storage_accepts w"
  "clock (snd (getCampaigns w)) = clock w"
  "random (snd (getCampaigns w)) = random w"
  by (simp_all add: getCampaigns_def console_write_def split: sum.splits)

lemma getCampaigns_same_item:
  "campaigns_item w' = campaigns_item w \<Longrightarrow> fst (getCampaigns w') = fst (getCampaigns w)"
  by (simp add: getCampaigns_def getCampaigns_try_def split: option.splits sum.splits)

lemma getCampaigns_again: "fst (getCampaigns (snd (getCampaigns w))) = fst (getCampaigns w)"
  by (rule getCampaigns_same_item) (simp add: getCampaigns_world)

lemma getCampaigns_Stringified:
  "campaigns_item w = Some (Stringified cs) \<Longrightarrow> getCampaigns w = (Expected cs, w)"
  by (simp add: getCampaigns_def getCampaigns_try_def truthy_text_def JSON_parse_def)

lemma getCampaigns_Foreign:
  "campaigns_item w = Some (Foreign j) \<Longrightarrow> getCampaigns w = (Unexpected j, w)"
  by (simp add: getCampaigns_def getCampaigns_try_def truthy_text_def JSON_parse_def)

lemma saveCampaigns_accepted:
  "shd (storage_accepts w) \<Longrightarrow>
   saveCampaigns cs w = w\<lparr>campaigns_item := Some (Stringified cs), storage_accepts := stl (storage_accepts w)\<rparr>"
  by (simp add: saveCampaigns_def setItem_campaigns_def JSON_stringify_def)

lemma saveCampaigns_refused:
  "\<not> shd (storage_accepts w) \<Longrightarrow>
   saveCampaigns cs w =
     w\<lparr>storage_accepts := stl (storage_accepts w), console := console w @ [''Error saving campaigns:'']\<rparr>"
  by (simp add: saveCampaigns_def setItem_campaigns_def console_write_def)

lemma saveCampaigns_clock: "clock (saveCampaigns cs w) = clock w"
  by (simp add: saveCampaigns_def setItem_campaigns_def console_write_def)

lemma getCampaigns_after_save:
  "shd (storage_accepts w) \<Longrightarrow> fst (getCampaigns (saveCampaigns cs w)) = Expected cs"
  by (simp add: saveCampaigns_accepted getCampaigns_Stringified)

lemma getCampaigns_after_refusal:
  "\<not> shd (storage_accepts w) \<Longrightarrow> fst (getCampaigns (saveCampaigns cs w)) = fst (getCampaigns w)"
  by (rule getCampaigns_same_item) (simp add: saveCampaigns_refused)

lemma getCampaigns_example_world:
  "getCampaigns (example_world cs ticks) = (Expected cs, example_world cs ticks)"
  by (simp add: getCampaigns_Stringified example_world_def JSON_stringify_def)

lemma getCampaigns_refusing_world:
  "getCampaigns (refusing_world cs ticks) = (Expected cs, refusing_world cs ticks)"
  by (simp add: getCampaigns_Stringified refusing_world_def example_world_def JSON_stringify_def)

lemma getCampaigns_null_world: "getCampaigns null_world = (Unexpected NullValue, null_world)"
  by (simp add: getCampaigns_Foreign null_world_def)

lemma example_campaign_id: "campaign_id (example_campaign n) = toString n"
  by (simp add: example_campaign_def)

lemma example_world_accepts: "storage_accepts (example_world cs ticks) = sconst True"
  by (simp add: example_world_def)

lemma refusing_world_accepts: "storage_accepts (refusing_world cs ticks) = sconst False"
  by (simp add: refusing_world_def)

lemma example_world_clock: "clock (example_world cs ticks) = ticks"
  by (simp add: example_world_def)

lemma refusing_world_clock: "clock (refusing_world cs ticks) = ticks"
  by (simp add: refusing_world_def example_world_def)

subsection \<open>The repository on a value that is not an array\<close>

lemma repository_throws:
  assumes "fst (getCampaigns w) = Unexpected j"
  shows "fst (addCampaign d w) = Inl TypeError"
    and "fst (updateCampaign i u w) = Inl TypeError"
    and "fst (deleteCampaign i w) = Inl TypeError"
    and "fst (getCampaignById i w) = Inl TypeError"
    and "fst (calculateRealStats w) = Inl TypeError"
  using assms
  by (simp_all add: addCampaign_def updateCampaign_def deleteCampaign_def getCampaignById_def
      calculateRealStats_def Let_def split_def)

text \<open>
  Claim C8, as stated, fails: a stored text that is well-formed but holds another value, here
  \<^verbatim>\<open>null\<close>, makes \<^verbatim>\<open>JSON.parse\<close> return that value and throw nothing. The read of the campaigns
  then returns \<^verbatim>\<open>null\<close>, neither a campaign sequence nor the empty sequence; the read of the
  dashboard configuration returns \<^verbatim>\<open>null\<close>, not the default; and \<open>addCampaign\<close> throws a
  TypeError to its caller.
\<close>

theorem store_read_counterexample:
  "fst (getCampaigns null_world) = Unexpected NullValue
   \<and> fst (getDashboardConfig null_world) = Unexpected JNull
   \<and> fst (addCampaign example_create null_world) = Inl TypeError"
  by (simp add: repository_throws(1) [of null_world NullValue] getCampaigns_null_world)
    (simp add: getDashboardConfig_def getDashboardConfig_try_def null_world_def truthy_text_def
      JSON_parse_def)

text \<open>
  Claim C8, amended. The reads and writes of the store themselves throw nothing. Reading the
  campaigns returns the empty sequence when the key is absent, when the stored text is
  malformed, and whenever anything in the \<^verbatim>\<open>try\<close> block throws (a line is then written to the
  console); otherwise it returns what the text deserializes to, as it is: the campaign
  sequence when the text holds one, and any other value when a well-formed text holds that.
  On such another value the repository's operations throw a TypeError to their caller. A
  write that the storage refuses leaves the entry as it was and writes a line to the console;
  an accepted one replaces the entry. Reading the dashboard configuration gives the default,
  with every widget and chart enabled and the grid layout, when the key is absent, when the
  text is malformed and whenever anything in the \<^verbatim>\<open>try\<close> block throws; otherwise it returns
  what the text deserializes to, as it is.
\<close>

theorem store_reads_and_writes:
  "(campaigns_item w = None \<longrightarrow> getCampaigns w = (Expected [], w))
   \<and> (\<forall>cs. campaigns_item w = Some (Stringified cs) \<longrightarrow> getCampaigns w = (Expected cs, w))
   \<and> (\<forall>j. campaigns_item w = Some (Foreign j) \<longrightarrow> getCampaigns w = (Unexpected j, w))
   \<and> (\<forall>e. getCampaigns_try w = Inl e \<longrightarrow>
        getCampaigns w = (Expected [], w\<lparr>console := console w @ [''Error loading campaigns:'']\<rparr>))
   \<and> (\<forall>s. campaigns_item w = Some (Malformed s) \<longrightarrow> fst (getCampaigns w) = Expected [])
   \<and> (\<forall>j. fst (getCampaigns w) = Unexpected j \<longrightarrow>
        fst (addCampaign d w) = Inl TypeError
      \<and> fst (updateCampaign i u w) = Inl TypeError
      \<and> fst (deleteCampaign i w) = Inl TypeError
      \<and> fst (getCampaignById i w) = Inl TypeError
      \<and> fst (calculateRealStats w) = Inl TypeError)
   \<and> (shd (storage_accepts w) \<longrightarrow>
        saveCampaigns cs w =
          w\<lparr>campaigns_item := Some (Stringified cs), storage_accepts := stl (storage_accepts w)\<rparr>)
   \<and> (\<not> shd (storage_accepts w) \<longrightarrow>
        saveCampaigns cs w =
          w\<lparr>storage_accepts := stl (storage_accepts w),
            console := console w @ [''Error saving campaigns:'']\<rparr>)
   \<and> (config_item w = None \<longrightarrow> getDashboardConfig w = (Expected defaultDashboardConfig, w))
   \<and> (\<forall>c. config_item w = Some (Stringified c) \<longrightarrow> getDashboardConfig w = (Expected c, w))
   \<and> (\<forall>j. config_item w = Some (Foreign j) \<longrightarrow> getDashboardConfig w = (Unexpected j, w))
   \<and> (\<forall>s. config_item w = Some (Malformed s) \<longrightarrow>
        fst (getDashboardConfig w) = Expected defaultDashboardConfig)
   \<and> (\<forall>e. getDashboardConfig_try w = Inl e \<longrightarrow>
        getDashboardConfig w =
          (Expected defaultDashboardConfig,
           w\<lparr>console := console w @ [''Error loading dashboard config:'']\<rparr>))
   \<and> widgets defaultDashboardConfig =
        \<lparr>w_totalCampaigns = True, w_activeCampaigns = True, w_totalViews = True,
         w_conversions = True, w_totalSpend = True, w_totalClicks = True\<rparr>
   \<and> charts defaultDashboardConfig =
        \<lparr>performanceChart = True, conversionChart = True, spendChart = True\<rparr>
   \<and> layout defaultDashboardConfig = GridLayout"
proof -
  have c1: "campaigns_item w = None \<longrightarrow> getCampaigns w = (Expected [], w)"
    by (simp add: getCampaigns_def getCampaigns_try_def)
  have c2: "\<forall>cs. campaigns_item w = Some (Stringified cs) \<longrightarrow> getCampaigns w = (Expected cs, w)"
    by (simp add: getCampaigns_Stringified)
  have c3: "\<forall>j. campaigns_item w = Some (Foreign j) \<longrightarrow> getCampaigns w = (Unexpected j, w)"
    by (simp add: getCampaigns_Foreign)
  have c4: "\<forall>e. getCampaigns_try w = Inl e \<longrightarrow>
        getCampaigns w = (Expected [], w\<lparr>console := console w @ [''Error loading campaigns:'']\<rparr>)"
    by (simp add: getCampaigns_def console_write_def)
  have c5: "\<forall>s. campaigns_item w = Some (Malformed s) \<longrightarrow> fst (getCampaigns w) = Expected []"
    by (simp add: getCampaigns_def getCampaigns_try_def JSON_parse_def)
  have t: "\<forall>j. fst (getCampaigns w) = Unexpected j \<longrightarrow>
        fst (addCampaign d w) = Inl TypeError
      \<and> fst (updateCampaign i u w) = Inl TypeError
      \<and> fst (deleteCampaign i w) = Inl TypeError
      \<and> fst (getCampaignById i w) = Inl TypeError
      \<and> fst (calculateRealStats w) = Inl TypeError"
    by (simp add: repository_throws)
  have d1: "config_item w = None \<longrightarrow> getDashboardConfig w = (Expected defaultDashboardConfig, w)"
    by (simp add: getDashboardConfig_def getDashboardConfig_try_def)
  have d2: "\<forall>c. config_item w = Some (Stringified c) \<longrightarrow> getDashboardConfig w = (Expected c, w)"
    by (simp add: getDashboardConfig_def getDashboardConfig_try_def truthy_text_def JSON_parse_def)
  have d3: "\<forall>j. config_item w = Some (Foreign j) \<longrightarrow> getDashboardConfig w = (Unexpected j, w)"
    by (simp add: getDashboardConfig_def getDashboardConfig_try_def truthy_text_def JSON_parse_def)
  have d4: "\<forall>s. config_item w = Some (Malformed s) \<longrightarrow>
        fst (getDashboardConfig w) = Expected defaultDashboardConfig"
    by (simp add: getDashboardConfig_def getDashboardConfig_try_def JSON_parse_def)
  have d5: "\<forall>e. getDashboardConfig_try w = Inl e \<longrightarrow>
        getDashboardConfig w =
          (Expected defaultDashboardConfig,
           w\<lparr>console := console w @ [''Error loading dashboard config:'']\<rparr>)"
    by (simp add: getDashboardConfig_def console_write_def)
  have s1: "shd (storage_accepts w) \<longrightarrow>
        saveCampaigns cs w =
          w\<lparr>campaigns_item := Some (Stringified cs), storage_accepts := stl (storage_accepts w)\<rparr>"
    by (simp add: saveCampaigns_accepted)
  have s2: "\<not> shd (storage_accepts w) \<longrightarrow>
        saveCampaigns cs w =
          w\<lparr>storage_accepts := stl (storage_accepts w),
            console := console w @ [''Error saving campaigns:'']\<rparr>"
    by (simp add: saveCampaigns_refused)
  have k: "widgets defaultDashboardConfig =
        \<lparr>w_totalCampaigns = True, w_activeCampaigns = True, w_totalViews = True,
         w_conversions = True, w_totalSpend = True, w_totalClicks = True\<rparr>
   \<and> charts defaultDashboardConfig =
        \<lparr>performanceChart = True, conversionChart = True, spendChart = True\<rparr>
   \<and> layout defaultDashboardConfig = GridLayout"
    by (simp add: defaultDashboardConfig_def)
  from c1 c2 c3 c4 c5 t s1 s2 d1 d2 d3 d4 d5 k show ?thesis
    by blast
qed

theorem store_reads_and_writes_witness:
  "getCampaigns corrupt_world = (Expected [], corrupt_world\<lparr>console := [''Error loading campaigns:'']\<rparr>)
   \<and> campaigns_item (saveCampaigns [example_campaign 101] corrupt_world) = campaigns_item corrupt_world
   \<and> console (saveCampaigns [example_campaign 101] corrupt_world) = [''Error saving campaigns:'']
   \<and> getDashboardConfig corrupt_world =
       (Expected defaultDashboardConfig,
        corrupt_world\<lparr>console := [''Error loading dashboard config:'']\<rparr>)
   \<and> getCampaigns (example_world [example_campaign 101] (sconst 0)) =
       (Expected [example_campaign 101], example_world [example_campaign 101] (sconst 0))
   \<and> getCampaigns null_world = (Unexpected NullValue, null_world)
   \<and> getDashboardConfig null_world = (Unexpected JNull, null_world)
   \<and> fst (deleteCampaign ''101'' null_world) = Inl TypeError"
proof -
  have t: "getCampaigns_try corrupt_world = Inl SyntaxError"
    by (simp add: getCampaigns_try_def corrupt_world_def truthy_text_def JSON_parse_def)
  have d: "getDashboardConfig_try corrupt_world = Inl SyntaxError"
    by (simp add: getDashboardConfig_try_def corrupt_world_def truthy_text_def JSON_parse_def)
  have a: "\<not> shd (storage_accepts corrupt_world)" "console corrupt_world = []"
    by (simp_all add: corrupt_world_def)
  have e: "campaigns_item (example_world [example_campaign 101] (sconst 0)) =
      Some (Stringified [example_campaign 101])"
    by (simp add: example_world_def JSON_stringify_def)
  have n: "campaigns_item null_world = Some (Foreign NullValue)"
    "config_item null_world = Some (Foreign JNull)"
    by (simp_all add: null_world_def)
  note c = store_reads_and_writes [of corrupt_world _ _ _ "[example_campaign 101]"]
  note x = store_reads_and_writes [of "example_world [example_campaign 101] (sconst 0)"]
  note z = store_reads_and_writes [of null_world _ "''101''"]
  show ?thesis
    using c x z by (simp add: t d a e n getCampaigns_null_world)
qed

subsection \<open>Listing on the fallback path\<close>

lemma fallback_page:
  assumes "fst (getCampaigns w) = Expected cs"
  shows "fst (campaignService_getCampaigns (Inl e) filters w) =
     Inr (let matching = apply_filters filters cs;
              page = (case filters of None \<Rightarrow> None | Some f \<Rightarrow> filter_page f);
              limit = (case filters of None \<Rightarrow> None | Some f \<Rightarrow> filter_limit f);
              start = (case page of None \<Rightarrow> 0 | Some p \<Rightarrow> if p \<noteq> 0 then (p - 1) * js_or_int limit 10 else 0)
          in \<lparr>campaigns = Items (slice matching start (start + js_or_int limit 10)),
              total = length matching\<rparr>)"
  using assms
  by (simp add: campaignService_getCampaigns_def Let_def split_def getCampaigns_console_write)

text \<open>
  Claim C5. When the remote call fails and the store holds a campaign sequence, listing with
  a page number \<open>page \<ge> 1\<close> and a page size \<open>limit \<ge> 1\<close> skips the first \<open>(page - 1) * limit\<close> of
  the campaigns that match the status and search filters and returns the next \<open>limit\<close> of
  them (fewer when the sequence ends), and \<open>total\<close> is the number of matching campaigns
  before the cut. With 25 stored campaigns and no other filter, page 2 of size 10 is the
  11th to the 20th stored campaign (indices 10 to 19) and \<open>total\<close> is 25.
\<close>

theorem list_pagination:
  assumes "fst (getCampaigns w) = Expected cs"
    and "filter_page f = Some page" and "filter_limit f = Some limit"
    and "1 \<le> page" and "1 \<le> limit"
  shows "fst (campaignService_getCampaigns (Inl e) (Some f) w) =
           Inr \<lparr>campaigns = Items (take (nat limit) (drop (nat ((page - 1) * limit)) (apply_filters (Some f) cs))),
                total = length (apply_filters (Some f) cs)\<rparr>
       \<and> length (take (nat limit) (drop (nat ((page - 1) * limit)) (apply_filters (Some f) cs))) \<le> nat limit
       \<and> (filter_status f = None \<and> filter_search f = None \<and> page = 2 \<and> limit = 10 \<and> length cs = 25 \<longrightarrow>
            fst (campaignService_getCampaigns (Inl e) (Some f) w) =
              Inr \<lparr>campaigns = Items (map (\<lambda>k. cs ! k) [10..<20]), total = 25\<rparr>)"
proof -
  let ?m = "apply_filters (Some f) cs"
  let ?r = "fst (campaignService_getCampaigns (Inl e) (Some f) w)"
  have start: "0 \<le> (page - 1) * limit" using assms by simp
  have r: "?r = Inr \<lparr>campaigns = Items (take (nat limit) (drop (nat ((page - 1) * limit)) ?m)),
                     total = length ?m\<rparr>"
    using assms(2-5) slice_nonneg [OF start, of limit ?m]
    by (simp add: fallback_page [OF assms(1)] Let_def js_or_int_def)
  have ex: "?r = Inr \<lparr>campaigns = Items (map (\<lambda>k. cs ! k) [10..<20]), total = 25\<rparr>"
    if h: "filter_status f = None" "filter_search f = None" "page = 2" "limit = 10" "length cs = 25"
  proof -
    have m: "?m = cs" using h by (simp add: apply_filters_def)
    have "take 10 (drop 10 cs) = map (\<lambda>k. cs ! k) [10..<10 + 10]"
      by (rule take_drop_nth) (simp add: h)
    then show ?thesis using h by (simp add: r m)
  qed
  show ?thesis using ex by (simp add: r)
qed

theorem list_pagination_witness:
  "fst (campaignService_getCampaigns (Inl (AxiosError None))
      (Some (no_filters\<lparr>filter_page := Some 2, filter_limit := Some 10\<rparr>))
      (example_world (map example_campaign [1..<26]) (sconst 0))) =
     Inr \<lparr>campaigns = Items (map example_campaign [11..<21]), total = 25\<rparr>"
  using list_pagination [of "example_world (map example_campaign [1..<26]) (sconst 0)"
      "map example_campaign [1..<26]" "no_filters\<lparr>filter_page := Some 2, filter_limit := Some 10\<rparr>"
      2 10 "AxiosError None"]
  by (simp add: no_filters_def getCampaigns_example_world apply_filters_def drop_map take_map)

text \<open>
  Claim C10. When the remote call fails, the store holds a campaign sequence and the caller
  gives neither a page nor a limit (no filter object at all, or one without these two), the
  list is cut to the first 10 matching campaigns, while \<open>total\<close> counts all matching
  campaigns; with more than 10 of them the result holds exactly 10, fewer than \<open>total\<close>.
\<close>

theorem list_default_limit:
  assumes "fst (getCampaigns w) = Expected cs"
    and "filters = None \<or> (\<exists>f. filters = Some f \<and> filter_page f = None \<and> filter_limit f = None)"
  shows "fst (campaignService_getCampaigns (Inl e) filters w) =
           Inr \<lparr>campaigns = Items (take 10 (apply_filters filters cs)),
                total = length (apply_filters filters cs)\<rparr>
       \<and> (10 < length (apply_filters filters cs) \<longrightarrow>
            length (take 10 (apply_filters filters cs)) = 10
          \<and> length (take 10 (apply_filters filters cs)) < length (apply_filters filters cs))"
  using assms(2) slice_nonneg [of 0 10 "apply_filters filters cs"]
  by (auto simp add: fallback_page [OF assms(1)] Let_def js_or_int_def)

theorem list_default_limit_witness:
  "fst (campaignService_getCampaigns (Inl (AxiosError None)) None
      (example_world (map example_campaign [1..<13]) (sconst 0))) =
     Inr \<lparr>campaigns = Items (map example_campaign [1..<11]), total = 12\<rparr>"
  using list_default_limit [of "example_world (map example_campaign [1..<13]) (sconst 0)"
      "map example_campaign [1..<13]" None "AxiosError None"]
  by (simp add: getCampaigns_example_world apply_filters_def take_map)

subsection \<open>Creating\<close>

lemma map_sum_Inr: "map (map_sum g f) (map Inr xs) = map Inr (map f xs)"
  by simp

lemma distinct_map_Inr: "distinct (map (map_sum g f) (map Inr xs)) = distinct (map f xs)"
  by (simp add: distinct_map o_def inj_on_def)

lemma addCampaign_fst:
  assumes "fst (getCampaigns w) = Expected cs"
  shows "fst (addCampaign d w) =
     Inr \<lparr>campaign_id = toString (clock w !! 0),
          name = new_name d,
          description = new_description d,
          budget = new_budget d,
          channel = new_channel d,
          start_date = new_start_date d,
          end_date = new_end_date d,
          status = Draft,
          user_id = ''1'',
          priority = (case new_priority d of Some p \<Rightarrow> p | None \<Rightarrow> Medium),
          target_locations = (case new_target_locations d of Some ls \<Rightarrow> ls | None \<Rightarrow> []),
          media_files = (case new_media_files d of Some ms \<Rightarrow> ms | None \<Rightarrow> []),
          created_at = toISOString (clock w !! 1),
          updated_at = toISOString (clock w !! 2),
          createdAt = Some (toISOString (clock w !! 3)),
          updatedAt = Some (toISOString (clock w !! 4)),
          views_count = Some 0,
          clicks_count = Some 0,
          conversions_count = Some 0,
          stats = Some \<lparr>views = 0, clicks = 0, conversions = 0, spend = 0\<rparr>\<rparr>"
  using assms
  by (simp add: addCampaign_def Let_def split_def Date_now_def new_Date_toISOString_def
      getCampaigns_world numeral_eq_Suc)

lemma addCampaign_snd:
  assumes "fst (getCampaigns w) = Expected cs" and "fst (addCampaign d w) = Inr c"
  shows "snd (addCampaign d w) =
     saveCampaigns (cs @ [c]) ((snd (getCampaigns w))\<lparr>clock := sdrop 5 (clock w)\<rparr>)"
  using assms
  by (simp add: addCampaign_def Let_def split_def Date_now_def new_Date_toISOString_def
      getCampaigns_world numeral_eq_Suc)

lemma addCampaign_clock: "clock (snd (addCampaign d w)) = sdrop 5 (clock w)"
  by (cases "fst (getCampaigns w)")
    (simp_all add: addCampaign_def Let_def split_def Date_now_def new_Date_toISOString_def
      getCampaigns_world saveCampaigns_clock numeral_eq_Suc)

lemma addCampaign_stored:
  assumes "fst (getCampaigns w) = Expected cs" and "fst (addCampaign d w) = Inr c"
    and "shd (storage_accepts w)"
  shows "fst (getCampaigns (snd (addCampaign d w))) = Expected (cs @ [c])"
proof -
  have "shd (storage_accepts ((snd (getCampaigns w))\<lparr>clock := sdrop 5 (clock w)\<rparr>))"
    using assms(3) by (simp add: getCampaigns_world)
  then show ?thesis
    by (simp only: addCampaign_snd [OF assms(1,2)] getCampaigns_after_save)
qed

lemma addCampaign_refused:
  assumes "fst (getCampaigns w) = Expected cs" and "\<not> shd (storage_accepts w)"
  shows "campaigns_item (snd (addCampaign d w)) = campaigns_item w"
    and "fst (getCampaigns (snd (addCampaign d w))) = Expected cs"
proof -
  obtain c where c: "fst (addCampaign d w) = Inr c"
    using addCampaign_fst [OF assms(1)] by blast
  have "\<not> shd (storage_accepts ((snd (getCampaigns w))\<lparr>clock := sdrop 5 (clock w)\<rparr>))"
    using assms(2) by (simp add: getCampaigns_world)
  then show item: "campaigns_item (snd (addCampaign d w)) = campaigns_item w"
    by (simp add: addCampaign_snd [OF assms(1) c] saveCampaigns_refused getCampaigns_world)
  show "fst (getCampaigns (snd (addCampaign d w))) = Expected cs"
    using getCampaigns_same_item [OF item] assms(1) by simp
qed

lemma addCampaign_keeps_sequence:
  assumes "fst (getCampaigns w) = Expected cs"
  shows "\<exists>cs'. fst (getCampaigns (snd (addCampaign d w))) = Expected cs'"
proof -
  obtain c where c: "fst (addCampaign d w) = Inr c"
    using addCampaign_fst [OF assms] by blast
  show ?thesis
  proof (cases "shd (storage_accepts w)")
    case True
    then show ?thesis using addCampaign_stored [OF assms c] by blast
  next
    case False
    then show ?thesis using addCampaign_refused(2) [OF assms] by blast
  qed
qed

lemma addCampaigns_ids:
  assumes "fst (getCampaigns w) = Expected cs"
  shows "\<exists>created. fst (addCampaigns ds w) = map Inr created
     \<and> map campaign_id created = map (\<lambda>k. toString (clock w !! (5 * k))) [0..<length ds]"
  using assms
proof (induction ds arbitrary: w cs)
  case Nil
  show ?case by simp
next
  case (Cons d ds)
  obtain c where c: "fst (addCampaign d w) = Inr c" and cid: "campaign_id c = toString (clock w !! 0)"
    using addCampaign_fst [OF Cons.prems, of d] by simp
  obtain cs' where "fst (getCampaigns (snd (addCampaign d w))) = Expected cs'"
    using addCampaign_keeps_sequence [OF Cons.prems] by blast
  from Cons.IH [OF this] obtain created where
    rest: "fst (addCampaigns ds (snd (addCampaign d w))) = map Inr created"
    and ids: "map campaign_id created =
      map (\<lambda>k. toString (clock (snd (addCampaign d w)) !! (5 * k))) [0..<length ds]"
    by blast
  have upt: "[0..<length (d # ds)] = 0 # map Suc [0..<length ds]"
    by (simp add: upt_conv_Cons map_Suc_upt del: upt_Suc)
  have "fst (addCampaigns (d # ds) w) = map Inr (c # created)"
    by (simp add: split_def Let_def c rest)
  moreover have "map campaign_id (c # created) =
      map (\<lambda>k. toString (clock w !! (5 * k))) [0..<length (d # ds)]"
    unfolding upt by (simp add: cid ids addCampaign_clock sdrop_snth o_def)
  ultimately show ?case by blast
qed

text \<open>
  Claim C2, as stated, fails: the id of a new campaign is the decimal rendering of the
  millisecond clock at the call and nothing else, so two creations within the same
  millisecond get the same id. Here both records get the id 1730505600123.
\<close>

theorem same_millisecond_same_id:
  "map (map_sum id campaign_id) (fst (addCampaigns [example_create, example_create]
      (example_world [] (sconst 1730505600123)))) =
     [Inr ''1730505600123'', Inr ''1730505600123'']"
proof -
  have w: "fst (getCampaigns (example_world [] (sconst 1730505600123))) = Expected []"
    by (simp add: getCampaigns_example_world)
  obtain created where
    r: "fst (addCampaigns [example_create, example_create] (example_world [] (sconst 1730505600123))) =
       map Inr created"
    and ids: "map campaign_id created =
       map (\<lambda>k. toString (clock (example_world [] (sconst 1730505600123)) !! (5 * k)))
         [0..<length [example_create, example_create]]"
    using addCampaigns_ids [OF w] by blast
  have "map campaign_id created = [''1730505600123'', ''1730505600123'']"
    using ids by (simp add: example_world_clock toString_example_ms upt_conv_Cons)
  then show ?thesis
    by (simp only: r map_sum_Inr) simp
qed

text \<open>
  Claim C2, amended. When the store holds a campaign sequence, every creation of a run
  returns a record; the ids of these records are the decimal renderings of the clock
  readings taken for them (every fifth reading of the run: each creation reads the clock
  five times, first for the id), and they are pairwise distinct exactly when these readings
  are pairwise distinct.
\<close>

theorem created_ids_distinct_iff:
  assumes "fst (getCampaigns w) = Expected cs"
  shows "\<exists>created. fst (addCampaigns ds w) = map Inr created
     \<and> map campaign_id created = map (\<lambda>k. toString (clock w !! (5 * k))) [0..<length ds]
     \<and> distinct (map campaign_id created) = distinct (map (\<lambda>k. clock w !! (5 * k)) [0..<length ds])"
proof -
  obtain created where r: "fst (addCampaigns ds w) = map Inr created"
    and ids: "map campaign_id created = map (\<lambda>k. toString (clock w !! (5 * k))) [0..<length ds]"
    using addCampaigns_ids [OF assms] by blast
  have "map campaign_id created = map toString (map (\<lambda>k. clock w !! (5 * k)) [0..<length ds])"
    by (simp add: ids o_def)
  then have "distinct (map campaign_id created) =
     distinct (map (\<lambda>k. clock w !! (5 * k)) [0..<length ds])"
    using inj_on_subset [OF toString_inj subset_UNIV] by (simp add: distinct_map del: map_map)
  with r ids show ?thesis by blast
qed

theorem created_ids_distinct_iff_witness:
  "distinct (map (map_sum id campaign_id)
      (fst (addCampaigns [example_create, example_create, example_create]
        (example_world [] (siterate Suc 1730505600123)))))
   \<and> \<not> distinct (map (map_sum id campaign_id)
      (fst (addCampaigns [example_create, example_create]
        (example_world [] (sconst 1730505600123)))))"
proof -
  have t: "fst (getCampaigns (example_world [] (siterate Suc 1730505600123))) = Expected []"
    and f: "fst (getCampaigns (example_world [] (sconst 1730505600123))) = Expected []"
    by (simp_all add: getCampaigns_example_world)
  obtain a where a: "fst (addCampaigns [example_create, example_create, example_create]
        (example_world [] (siterate Suc 1730505600123))) = map Inr a"
    and da: "distinct (map campaign_id a) =
       distinct (map (\<lambda>k. clock (example_world [] (siterate Suc 1730505600123)) !! (5 * k))
         [0..<length [example_create, example_create, example_create]])"
    using created_ids_distinct_iff [OF t] by blast
  obtain b where b: "fst (addCampaigns [example_create, example_create]
        (example_world [] (sconst 1730505600123))) = map Inr b"
    and db: "distinct (map campaign_id b) =
       distinct (map (\<lambda>k. clock (example_world [] (sconst 1730505600123)) !! (5 * k))
         [0..<length [example_create, example_create]])"
    using created_ids_distinct_iff [OF f] by blast
  have "distinct (map campaign_id a)"
    using da by (simp add: example_world_clock upt_conv_Cons)
  moreover have "\<not> distinct (map campaign_id b)"
    using db by (simp add: example_world_clock upt_conv_Cons)
  ultimately show ?thesis
    by (simp only: a b distinct_map_Inr) simp
qed

text \<open>
  Claim C7, as stated, fails twice. \<open>created_at\<close> and \<open>updated_at\<close> come from two separate
  readings of the clock: when the clock advances between them the two differ. And a write
  that the storage refuses is caught and logged: the record is returned, with its
  id, but the stored sequence stays as it was, here empty.
\<close>

theorem add_campaign_counterexample:
  "map_sum id created_at
      (fst (addCampaign example_create (example_world [] (siterate Suc 1730505600123)))) =
     Inr ''2024-11-02T00:00:00.124Z''
   \<and> map_sum id updated_at
      (fst (addCampaign example_create (example_world [] (siterate Suc 1730505600123)))) =
     Inr ''2024-11-02T00:00:00.125Z''
   \<and> map_sum id campaign_id
      (fst (addCampaign example_create (refusing_world [] (sconst 1730505600123)))) =
     Inr ''1730505600123''
   \<and> fst (getCampaigns (snd (addCampaign example_create (refusing_world [] (sconst 1730505600123))))) =
     Expected []"
proof -
  have t: "fst (getCampaigns (example_world [] (siterate Suc 1730505600123))) = Expected []"
    and r: "fst (getCampaigns (refusing_world [] (sconst 1730505600123))) = Expected []"
    by (simp_all add: getCampaigns_example_world getCampaigns_refusing_world)
  have n: "\<not> shd (storage_accepts (refusing_world [] (sconst 1730505600123)))"
    by (simp add: refusing_world_accepts)
  show ?thesis
    by (simp add: addCampaign_fst [OF t] addCampaign_fst [OF r] addCampaign_refused(2) [OF r n]
        example_world_clock refusing_world_clock toISOString_examples toString_example_ms)
qed

text \<open>
  Claim C7, amended. For every input and stored campaign sequence, \<open>addCampaign\<close> returns a
  record with status draft, the placeholder owner id 1, the priority of the input or medium
  when it has none, the target locations and media files of the input or empty sequences
  when it has none, the other input fields copied, the id and the timestamps taken from
  successive readings of the clock (so \<open>created_at\<close> equals \<open>updated_at\<close> whenever their two
  readings are equal), and both metric shapes zero. When the storage accepts the write, the
  stored sequence afterwards is the old one with the record appended; when the storage
  refuses it, the record is returned all the same and the stored sequence stays as it was.
\<close>

theorem add_campaign_record:
  assumes "fst (getCampaigns w) = Expected cs"
  shows "\<exists>c. fst (addCampaign d w) = Inr c
   \<and> status c = Draft
   \<and> user_id c = ''1''
   \<and> priority c = (case new_priority d of Some p \<Rightarrow> p | None \<Rightarrow> Medium)
   \<and> target_locations c = (case new_target_locations d of Some ls \<Rightarrow> ls | None \<Rightarrow> [])
   \<and> media_files c = (case new_media_files d of Some ms \<Rightarrow> ms | None \<Rightarrow> [])
   \<and> campaign_id c = toString (clock w !! 0)
   \<and> created_at c = toISOString (clock w !! 1)
   \<and> updated_at c = toISOString (clock w !! 2)
   \<and> (clock w !! 1 = clock w !! 2 \<longrightarrow> created_at c = updated_at c)
   \<and> views_count c = Some 0
   \<and> clicks_count c = Some 0
   \<and> conversions_count c = Some 0
   \<and> stats c = Some \<lparr>views = 0, clicks = 0, conversions = 0, spend = 0\<rparr>
   \<and> name c = new_name d
   \<and> description c = new_description d
   \<and> budget c = new_budget d
   \<and> channel c = new_channel d
   \<and> start_date c = new_start_date d
   \<and> end_date c = new_end_date d
   \<and> (shd (storage_accepts w) \<longrightarrow>
        fst (getCampaigns (snd (addCampaign d w))) = Expected (cs @ [c]))
   \<and> (\<not> shd (storage_accepts w) \<longrightarrow>
        campaigns_item (snd (addCampaign d w)) = campaigns_item w
      \<and> fst (getCampaigns (snd (addCampaign d w))) = Expected cs)"
proof -
  obtain c where c: "fst (addCampaign d w) = Inr c"
    using addCampaign_fst [OF assms] by blast
  have fields: "status c = Draft
   \<and> user_id c = ''1''
   \<and> priority c = (case new_priority d of Some p \<Rightarrow> p | None \<Rightarrow> Medium)
   \<and> target_locations c = (case new_target_locations d of Some ls \<Rightarrow> ls | None \<Rightarrow> [])
   \<and> media_files c = (case new_media_files d of Some ms \<Rightarrow> ms | None \<Rightarrow> [])
   \<and> campaign_id c = toString (clock w !! 0)
   \<and> created_at c = toISOString (clock w !! 1)
   \<and> updated_at c = toISOString (clock w !! 2)
   \<and> (clock w !! 1 = clock w !! 2 \<longrightarrow> created_at c = updated_at c)
   \<and> views_count c = Some 0
   \<and> clicks_count c = Some 0
   \<and> conversions_count c = Some 0
   \<and> stats c = Some \<lparr>views = 0, clicks = 0, conversions = 0, spend = 0\<rparr>
   \<and> name c = new_name d
   \<and> description c = new_description d
   \<and> budget c = new_budget d
   \<and> channel c = new_channel d
   \<and> start_date c = new_start_date d
   \<and> end_date c = new_end_date d"
    using c addCampaign_fst [OF assms, of d] by auto
  have stored: "shd (storage_accepts w) \<longrightarrow>
        fst (getCampaigns (snd (addCampaign d w))) = Expected (cs @ [c])"
    using addCampaign_stored [OF assms c] by simp
  have refused: "\<not> shd (storage_accepts w) \<longrightarrow>
        campaigns_item (snd (addCampaign d w)) = campaigns_item w
      \<and> fst (getCampaigns (snd (addCampaign d w))) = Expected cs"
    using addCampaign_refused [OF assms] by simp
  from c fields stored refused show ?thesis by blast
qed

theorem add_campaign_record_witness:
  "map_sum id status
      (fst (addCampaign example_create (example_world [example_campaign 101] (sconst 1730505600123)))) =
     Inr Draft
   \<and> map_sum id priority
      (fst (addCampaign example_create (example_world [example_campaign 101] (sconst 1730505600123)))) =
     Inr Medium
   \<and> map_sum id created_at
      (fst (addCampaign example_create (example_world [example_campaign 101] (sconst 1730505600123)))) =
     Inr ''2024-11-02T00:00:00.123Z''
   \<and> map_sum id updated_at
      (fst (addCampaign example_create (example_world [example_campaign 101] (sconst 1730505600123)))) =
     Inr ''2024-11-02T00:00:00.123Z''
   \<and> map_sum id (\<lambda>c. Expected [example_campaign 101, c])
      (fst (addCampaign example_create (example_world [example_campaign 101] (sconst 1730505600123)))) =
     Inr (fst (getCampaigns (snd (addCampaign example_create
         (example_world [example_campaign 101] (sconst 1730505600123))))))
   \<and> map_sum id campaign_id
      (fst (addCampaign example_create (refusing_world [example_campaign 101] (sconst 1730505600123)))) =
     Inr ''1730505600123''
   \<and> fst (getCampaigns (snd (addCampaign example_create
         (refusing_world [example_campaign 101] (sconst 1730505600123))))) =
     Expected [example_campaign 101]"
proof -
  have a: "fst (getCampaigns (example_world [example_campaign 101] (sconst 1730505600123))) =
      Expected [example_campaign 101]"
    and r: "fst (getCampaigns (refusing_world [example_campaign 101] (sconst 1730505600123))) =
      Expected [example_campaign 101]"
    by (simp_all add: getCampaigns_example_world getCampaigns_refusing_world)
  from add_campaign_record [OF a, of example_create] obtain c where
    "fst (addCampaign example_create (example_world [example_campaign 101] (sconst 1730505600123))) = Inr c"
    "status c = Draft" "priority c = Medium"
    "created_at c = ''2024-11-02T00:00:00.123Z''" "updated_at c = ''2024-11-02T00:00:00.123Z''"
    "fst (getCampaigns (snd (addCampaign example_create
         (example_world [example_campaign 101] (sconst 1730505600123))))) =
       Expected ([example_campaign 101] @ [c])"
    by (auto simp add: example_world_clock example_world_accepts toISOString_examples
        example_create_def)
  moreover from add_campaign_record [OF r, of example_create] obtain c' where
    "fst (addCampaign example_create (refusing_world [example_campaign 101] (sconst 1730505600123))) = Inr c'"
    "campaign_id c' = ''1730505600123''"
    "fst (getCampaigns (snd (addCampaign example_create
         (refusing_world [example_campaign 101] (sconst 1730505600123))))) =
       Expected [example_campaign 101]"
    by (auto simp add: refusing_world_clock refusing_world_accepts toString_example_ms)
  ultimately show ?thesis by simp
qed

subsection \<open>Updating\<close>

lemma updateCampaign_found:
  assumes "fst (getCampaigns w) = Expected cs" and "find (\<lambda>x. campaign_id x = i) cs = Some c"
  shows "updateCampaign i u w =
     (Inr (Some ((spread_updates c u)\<lparr>updated_at := toISOString (clock w !! 0),
              updatedAt := Some (toISOString (clock w !! 1))\<rparr>)),
      saveCampaigns
        (cs[length (takeWhile (\<lambda>x. campaign_id x \<noteq> i) cs) :=
           (spread_updates c u)\<lparr>updated_at := toISOString (clock w !! 0),
              updatedAt := Some (toISOString (clock w !! 1))\<rparr>])
        ((snd (getCampaigns w))\<lparr>clock := sdrop 2 (clock w)\<rparr>))"
  using find_first [OF assms(2)] assms(1)
  by (simp add: updateCampaign_def Let_def split_def findIndex_eq new_Date_toISOString_def
      getCampaigns_world numeral_eq_Suc)

lemma updateCampaign_None:
  assumes "fst (getCampaigns w) = Expected cs"
  shows "(fst (updateCampaign i updates w) = Inr None) = (\<not> (\<exists>c\<in>set cs. campaign_id c = i))"
  using assms by (simp add: updateCampaign_def Let_def split_def findIndex_eq)

lemma getCampaigns_local_world:
  "fst (getCampaigns (example_world [local_campaign] (sconst 1730505600123))) = Expected [local_campaign]"
  by (simp add: getCampaigns_example_world)

lemma local_campaign_id: "campaign_id local_campaign = ''101''"
  by (simp add: local_campaign_def example_campaign_id toString_examples)

text \<open>
  Claim C4, as stated, fails: an update with only a budget also rewrites the field
  \<open>updatedAt\<close>, the camel-case twin of \<open>updated_at\<close>.
\<close>

theorem update_merge_counterexample:
  "fst (getCampaigns (example_world [local_campaign] (sconst 1730505600123))) = Expected [local_campaign]
   \<and> updatedAt local_campaign = Some ''2024-11-01T00:00:00.000Z''
   \<and> map_sum id (map_option updatedAt)
        (fst (updateCampaign ''101'' (no_updates\<lparr>upd_budget := Some 99\<rparr>)
           (example_world [local_campaign] (sconst 1730505600123)))) =
       Inr (Some (Some ''2024-11-02T00:00:00.123Z''))"
proof -
  have "find (\<lambda>x. campaign_id x = ''101'') [local_campaign] = Some local_campaign"
    by (simp add: local_campaign_id)
  from updateCampaign_found [OF getCampaigns_local_world this] show ?thesis
    by (simp add: getCampaigns_local_world example_world_clock toISOString_examples)
      (simp add: local_campaign_def)
qed

text \<open>
  Claim C4, amended. For the first stored campaign with the id, an update with only
  \<open>budget = 99\<close> changes the budget, \<open>updated_at\<close> and \<open>updatedAt\<close>, and no other field. In
  general the returned record takes each field that the update provides from the update and
  every other field from the stored record, except \<open>updated_at\<close> and \<open>updatedAt\<close>, which are
  the next two readings of the clock. When the storage accepts the write the stored
  sequence afterwards is the old one with this record in the place of the old record; when
  it refuses, the entry stays as it was.
\<close>

theorem update_merge:
  assumes "fst (getCampaigns w) = Expected cs" and "find (\<lambda>x. campaign_id x = i) cs = Some c"
  shows "fst (updateCampaign i (no_updates\<lparr>upd_budget := Some 99\<rparr>) w) =
           Inr (Some (c\<lparr>budget := 99, updated_at := toISOString (clock w !! 0),
                   updatedAt := Some (toISOString (clock w !! 1))\<rparr>))
       \<and> fst (updateCampaign i u w) =
           Inr (Some \<lparr>campaign_id = campaign_id c,
                 name = (case upd_name u of Some v \<Rightarrow> v | None \<Rightarrow> name c),
                 description = (case upd_description u of Some v \<Rightarrow> Some v | None \<Rightarrow> description c),
                 budget = (case upd_budget u of Some v \<Rightarrow> v | None \<Rightarrow> budget c),
                 channel = (case upd_channel u of Some v \<Rightarrow> v | None \<Rightarrow> channel c),
                 start_date = (case upd_start_date u of Some v \<Rightarrow> v | None \<Rightarrow> start_date c),
                 end_date = (case upd_end_date u of Some v \<Rightarrow> v | None \<Rightarrow> end_date c),
                 status = (case upd_status u of Some v \<Rightarrow> v | None \<Rightarrow> status c),
                 user_id = user_id c,
                 priority = (case upd_priority u of Some v \<Rightarrow> v | None \<Rightarrow> priority c),
                 target_locations =
                   (case upd_target_locations u of Some v \<Rightarrow> v | None \<Rightarrow> target_locations c),
                 media_files = (case upd_media_files u of Some v \<Rightarrow> v | None \<Rightarrow> media_files c),
                 created_at = created_at c,
                 updated_at = toISOString (clock w !! 0),
                 createdAt = createdAt c,
                 updatedAt = Some (toISOString (clock w !! 1)),
                 views_count = views_count c,
                 clicks_count = clicks_count c,
                 conversions_count = conversions_count c,
                 stats = stats c\<rparr>)
       \<and> (shd (storage_accepts w) \<longrightarrow>
            (\<exists>c'. fst (updateCampaign i u w) = Inr (Some c')
               \<and> fst (getCampaigns (snd (updateCampaign i u w))) =
                   Expected (cs[length (takeWhile (\<lambda>x. campaign_id x \<noteq> i) cs) := c'])))
       \<and> (\<not> shd (storage_accepts w) \<longrightarrow>
            campaigns_item (snd (updateCampaign i u w)) = campaigns_item w)"
proof -
  have budget: "fst (updateCampaign i (no_updates\<lparr>upd_budget := Some 99\<rparr>) w) =
           Inr (Some (c\<lparr>budget := 99, updated_at := toISOString (clock w !! 0),
                   updatedAt := Some (toISOString (clock w !! 1))\<rparr>))"
    by (simp add: updateCampaign_found [OF assms])
      (intro campaign.equality; simp add: spread_updates_def no_updates_def)
  have merged: "fst (updateCampaign i u w) =
           Inr (Some \<lparr>campaign_id = campaign_id c,
                 name = (case upd_name u of Some v \<Rightarrow> v | None \<Rightarrow> name c),
                 description = (case upd_description u of Some v \<Rightarrow> Some v | None \<Rightarrow> description c),
                 budget = (case upd_budget u of Some v \<Rightarrow> v | None \<Rightarrow> budget c),
                 channel = (case upd_channel u of Some v \<Rightarrow> v | None \<Rightarrow> channel c),
                 start_date = (case upd_start_date u of Some v \<Rightarrow> v | None \<Rightarrow> start_date c),
                 end_date = (case upd_end_date u of Some v \<Rightarrow> v | None \<Rightarrow> end_date c),
                 status = (case upd_status u of Some v \<Rightarrow> v | None \<Rightarrow> status c),
                 user_id = user_id c,
                 priority = (case upd_priority u of Some v \<Rightarrow> v | None \<Rightarrow> priority c),
                 target_locations =
                   (case upd_target_locations u of Some v \<Rightarrow> v | None \<Rightarrow> target_locations c),
                 media_files = (case upd_media_files u of Some v \<Rightarrow> v | None \<Rightarrow> media_files c),
                 created_at = created_at c,
                 updated_at = toISOString (clock w !! 0),
                 createdAt = createdAt c,
                 updatedAt = Some (toISOString (clock w !! 1)),
                 views_count = views_count c,
                 clicks_count = clicks_count c,
                 conversions_count = conversions_count c,
                 stats = stats c\<rparr>)"
    by (simp add: updateCampaign_found [OF assms])
      (intro campaign.equality; simp add: spread_updates_def)
  have stored: "\<exists>c'. fst (updateCampaign i u w) = Inr (Some c')
               \<and> fst (getCampaigns (snd (updateCampaign i u w))) =
                   Expected (cs[length (takeWhile (\<lambda>x. campaign_id x \<noteq> i) cs) := c'])"
    if "shd (storage_accepts w)"
  proof -
    have "shd (storage_accepts ((snd (getCampaigns w))\<lparr>clock := sdrop 2 (clock w)\<rparr>))"
      using that by (simp add: getCampaigns_world)
    then show ?thesis
      by (simp add: updateCampaign_found [OF assms] getCampaigns_after_save)
  qed
  have refused: "campaigns_item (snd (updateCampaign i u w)) = campaigns_item w"
    if "\<not> shd (storage_accepts w)"
  proof -
    have "\<not> shd (storage_accepts ((snd (getCampaigns w))\<lparr>clock := sdrop 2 (clock w)\<rparr>))"
      using that by (simp add: getCampaigns_world)
    then show ?thesis
      by (simp add: updateCampaign_found [OF assms] saveCampaigns_refused getCampaigns_world)
  qed
  show ?thesis
    using budget merged stored refused by blast
qed

theorem update_merge_witness:
  "fst (updateCampaign ''101'' (no_updates\<lparr>upd_budget := Some 99\<rparr>)
      (example_world [local_campaign] (sconst 1730505600123))) =
     Inr (Some (local_campaign\<lparr>budget := 99, updated_at := ''2024-11-02T00:00:00.123Z'',
             updatedAt := Some ''2024-11-02T00:00:00.123Z''\<rparr>))
   \<and> fst (getCampaigns (snd (updateCampaign ''101'' (no_updates\<lparr>upd_budget := Some 99\<rparr>)
      (example_world [local_campaign] (sconst 1730505600123))))) =
     Expected [local_campaign\<lparr>budget := 99, updated_at := ''2024-11-02T00:00:00.123Z'',
        updatedAt := Some ''2024-11-02T00:00:00.123Z''\<rparr>]
   \<and> campaigns_item (snd (updateCampaign ''101'' (no_updates\<lparr>upd_budget := Some 99\<rparr>)
      (refusing_world [local_campaign] (sconst 1730505600123)))) =
     campaigns_item (refusing_world [local_campaign] (sconst 1730505600123))"
proof -
  have f: "find (\<lambda>x. campaign_id x = ''101'') [local_campaign] = Some local_campaign"
    by (simp add: local_campaign_id)
  have g: "fst (getCampaigns (refusing_world [local_campaign] (sconst 1730505600123))) =
      Expected [local_campaign]"
    by (simp add: getCampaigns_refusing_world)
  have n: "campaigns_item (snd (updateCampaign ''101'' (no_updates\<lparr>upd_budget := Some 99\<rparr>)
      (refusing_world [local_campaign] (sconst 1730505600123)))) =
     campaigns_item (refusing_world [local_campaign] (sconst 1730505600123))"
    using update_merge [OF g f, of "no_updates\<lparr>upd_budget := Some 99\<rparr>",
        THEN conjunct2, THEN conjunct2, THEN conjunct2]
    by (simp add: refusing_world_accepts)
  note m = update_merge [OF getCampaigns_local_world f, of "no_updates\<lparr>upd_budget := Some 99\<rparr>"]
  have r: "fst (updateCampaign ''101'' (no_updates\<lparr>upd_budget := Some 99\<rparr>)
      (example_world [local_campaign] (sconst 1730505600123))) =
     Inr (Some (local_campaign\<lparr>budget := 99, updated_at := ''2024-11-02T00:00:00.123Z'',
             updatedAt := Some ''2024-11-02T00:00:00.123Z''\<rparr>))"
    using m [THEN conjunct1] by (simp add: example_world_clock toISOString_examples)
  have s: "fst (getCampaigns (snd (updateCampaign ''101'' (no_updates\<lparr>upd_budget := Some 99\<rparr>)
      (example_world [local_campaign] (sconst 1730505600123))))) =
     Expected [local_campaign\<lparr>budget := 99, updated_at := ''2024-11-02T00:00:00.123Z'',
        updatedAt := Some ''2024-11-02T00:00:00.123Z''\<rparr>]"
    using m [THEN conjunct2, THEN conjunct2, THEN conjunct1]
    by (simp add: r example_world_accepts local_campaign_id)
  from r s n show ?thesis by simp
qed

subsection \<open>Deleting\<close>

lemma deleteCampaign_result:
  assumes "fst (getCampaigns w) = Expected cs"
  shows "fst (deleteCampaign i w) = Inr (\<exists>c\<in>set cs. campaign_id c = i)"
  using assms by (auto simp add: deleteCampaign_def Let_def split_def length_filter_eq)

lemma deleteCampaign_absent:
  assumes "fst (getCampaigns w) = Expected cs" and "\<not> (\<exists>c\<in>set cs. campaign_id c = i)"
  shows "campaigns_item (snd (deleteCampaign i w)) = campaigns_item w"
  using assms
  by (auto simp add: deleteCampaign_def Let_def split_def length_filter_eq getCampaigns_world)

lemma deleteCampaign_store:
  assumes "fst (getCampaigns w) = Expected cs" and "shd (storage_accepts w)"
  shows "fst (getCampaigns (snd (deleteCampaign i w))) = Expected (filter (\<lambda>c. campaign_id c \<noteq> i) cs)"
proof (cases "\<exists>c\<in>set cs. campaign_id c = i")
  case True
  have "shd (storage_accepts (snd (getCampaigns w)))"
    using assms(2) by (simp add: getCampaigns_world)
  with True assms(1) show ?thesis
    by (auto simp add: deleteCampaign_def Let_def split_def length_filter_eq getCampaigns_after_save)
next
  case False
  have "fst (getCampaigns (snd (deleteCampaign i w))) = fst (getCampaigns w)"
    by (rule getCampaigns_same_item) (rule deleteCampaign_absent [OF assms(1) False])
  moreover have "filter (\<lambda>c. campaign_id c \<noteq> i) cs = cs"
    using False by (simp add: filter_id_conv)
  ultimately show ?thesis
    using assms(1) by simp
qed

lemma deleteCampaign_refused:
  assumes "fst (getCampaigns w) = Expected cs" and "\<not> shd (storage_accepts w)"
  shows "campaigns_item (snd (deleteCampaign i w)) = campaigns_item w"
    and "fst (getCampaigns (snd (deleteCampaign i w))) = Expected cs"
proof -
  have "\<not> shd (storage_accepts (snd (getCampaigns w)))"
    using assms(2) by (simp add: getCampaigns_world)
  then show item: "campaigns_item (snd (deleteCampaign i w)) = campaigns_item w"
    using assms(1)
    by (simp add: deleteCampaign_def Let_def split_def saveCampaigns_refused getCampaigns_world)
  show "fst (getCampaigns (snd (deleteCampaign i w))) = Expected cs"
    using getCampaigns_same_item [OF item] assms(1) by simp
qed

text \<open>
  Claim C6, as stated, fails: \<open>deleteCampaign\<close> returns true when the stored sequence holds
  the id, whether or not the record is then removed. When the storage refuses the write,
  the refusal is caught and logged, the stored sequence stays as it was, and a second
  delete returns true again.
\<close>

theorem delete_counterexample:
  "fst (deleteCampaign ''101'' (refusing_world [example_campaign 101, example_campaign 102] (sconst 0))) =
     Inr True
   \<and> fst (getCampaigns (snd (deleteCampaign ''101''
        (refusing_world [example_campaign 101, example_campaign 102] (sconst 0))))) =
     Expected [example_campaign 101, example_campaign 102]
   \<and> fst (deleteCampaign ''101'' (snd (deleteCampaign ''101''
        (refusing_world [example_campaign 101, example_campaign 102] (sconst 0))))) =
     Inr True"
proof -
  have r: "fst (getCampaigns (refusing_world [example_campaign 101, example_campaign 102] (sconst 0))) =
      Expected [example_campaign 101, example_campaign 102]"
    by (simp add: getCampaigns_refusing_world)
  have n: "\<not> shd (storage_accepts (refusing_world [example_campaign 101, example_campaign 102] (sconst 0)))"
    by (simp add: refusing_world_accepts)
  note s = deleteCampaign_refused(2) [OF r n, of "''101''"]
  show ?thesis
    by (simp add: deleteCampaign_result [OF r] deleteCampaign_result [OF s] s
        example_campaign_id toString_examples)
qed

text \<open>
  Claim C6, amended. For every id and stored campaign sequence, \<open>deleteCampaign\<close> returns
  true exactly when the stored sequence holds a campaign with the id, and false when it
  holds none (the store is then left as it was). When the storage accepts the write, the
  stored sequence afterwards is the old one without the campaigns of that id, so deleting
  an existing campaign twice in succession returns true and then false. When the storage
  refuses the write, the stored sequence stays as it was and a second delete returns what
  the first returned.
\<close>

theorem delete_signal:
  assumes "fst (getCampaigns w) = Expected cs"
  shows "fst (deleteCampaign i w) = Inr (\<exists>c\<in>set cs. campaign_id c = i)
   \<and> (\<not> (\<exists>c\<in>set cs. campaign_id c = i) \<longrightarrow>
        campaigns_item (snd (deleteCampaign i w)) = campaigns_item w)
   \<and> (shd (storage_accepts w) \<longrightarrow>
        fst (getCampaigns (snd (deleteCampaign i w))) = Expected (filter (\<lambda>c. campaign_id c \<noteq> i) cs)
      \<and> fst (deleteCampaign i (snd (deleteCampaign i w))) = Inr False)
   \<and> ((\<exists>c\<in>set cs. campaign_id c = i) \<and> shd (storage_accepts w) \<longrightarrow>
        fst (deleteCampaign i w) = Inr True
      \<and> fst (deleteCampaign i (snd (deleteCampaign i w))) = Inr False)
   \<and> (\<not> shd (storage_accepts w) \<longrightarrow>
        campaigns_item (snd (deleteCampaign i w)) = campaigns_item w
      \<and> fst (getCampaigns (snd (deleteCampaign i w))) = Expected cs
      \<and> fst (deleteCampaign i (snd (deleteCampaign i w))) = fst (deleteCampaign i w))"
proof -
  note first = deleteCampaign_result [OF assms, of i]
  have second: "fst (deleteCampaign i (snd (deleteCampaign i w))) = Inr False"
    if "shd (storage_accepts w)"
    by (simp add: deleteCampaign_result [OF deleteCampaign_store [OF assms that, of i]])
  have again: "fst (deleteCampaign i (snd (deleteCampaign i w))) = fst (deleteCampaign i w)"
    if "\<not> shd (storage_accepts w)"
    by (simp add: deleteCampaign_result [OF deleteCampaign_refused(2) [OF assms that, of i]] first)
  show ?thesis
    using first second again deleteCampaign_absent [OF assms, of i]
      deleteCampaign_store [OF assms, of i] deleteCampaign_refused [OF assms, of i]
    by simp
qed

theorem delete_signal_witness:
  "fst (deleteCampaign ''101'' (example_world [example_campaign 101, example_campaign 102] (sconst 0))) =
     Inr True
   \<and> fst (deleteCampaign ''101''
        (snd (deleteCampaign ''101'' (example_world [example_campaign 101, example_campaign 102] (sconst 0))))) =
     Inr False
   \<and> fst (getCampaigns
        (snd (deleteCampaign ''101'' (example_world [example_campaign 101, example_campaign 102] (sconst 0))))) =
      Expected [example_campaign 102]
   \<and> fst (deleteCampaign ''103'' (example_world [example_campaign 101, example_campaign 102] (sconst 0))) =
     Inr False
   \<and> campaigns_item (snd (deleteCampaign ''103''
        (example_world [example_campaign 101, example_campaign 102] (sconst 0)))) =
     campaigns_item (example_world [example_campaign 101, example_campaign 102] (sconst 0))
   \<and> fst (getCampaigns
        (snd (deleteCampaign ''101'' (refusing_world [example_campaign 101, example_campaign 102] (sconst 0))))) =
      Expected [example_campaign 101, example_campaign 102]"
proof -
  have a: "fst (getCampaigns (example_world [example_campaign 101, example_campaign 102] (sconst 0))) =
      Expected [example_campaign 101, example_campaign 102]"
    and r: "fst (getCampaigns (refusing_world [example_campaign 101, example_campaign 102] (sconst 0))) =
      Expected [example_campaign 101, example_campaign 102]"
    by (simp_all add: getCampaigns_example_world getCampaigns_refusing_world)
  show ?thesis
    using delete_signal [OF a, of "''101''"] delete_signal [OF a, of "''103''"]
      delete_signal [OF r, of "''101''"]
    by (simp add: example_campaign_id example_world_accepts refusing_world_accepts toString_examples)
qed

subsection \<open>The stats engine\<close>

lemma js_or_read: "js_or_num (js_or nested_value flat_counter) 0 = read_nonzero_nested_else_flat nested_value flat_counter"
  by (simp add: js_or_num_def js_or_def truthy_def read_nonzero_nested_else_flat_def split: option.splits)

lemma calculatePercentageChange_world:
  "snd (calculatePercentageChange current w) = w\<lparr>random := stl (random w)\<rparr>"
  by (simp add: calculatePercentageChange_def Math_random_def Let_def)

lemma calculateRealStats_values:
  assumes "fst (getCampaigns w) = Expected cs"
  shows "\<exists>r. fst (calculateRealStats w) = Inr r
   \<and> metric_value (totalCampaigns r) = of_nat (length cs)
   \<and> metric_value (activeCampaigns r) = of_nat (length (filter (\<lambda>c. status c = Active) cs))
   \<and> metric_value (totalViews r) =
     sum_list (map (\<lambda>c. read_nonzero_nested_else_flat (map_option views (stats c)) (views_count c)) cs)
   \<and> metric_value (totalClicks r) =
     sum_list (map (\<lambda>c. read_nonzero_nested_else_flat (map_option clicks (stats c)) (clicks_count c)) cs)
   \<and> metric_value (totalConversions r) =
     sum_list (map (\<lambda>c. read_nonzero_nested_else_flat (map_option conversions (stats c)) (conversions_count c)) cs)
   \<and> metric_value (totalSpend r) =
     sum_list (map (\<lambda>c. read_nonzero_nested_else_flat (map_option spend (stats c)) (Some (budget c))) cs)"
  using assms by (simp add: calculateRealStats_def Let_def split_def foldl_plus js_or_read)

lemma calculateRealStats_world:
  assumes "fst (getCampaigns w) = Expected cs"
  shows "snd (calculateRealStats w) = (snd (getCampaigns w))\<lparr>random := sdrop 6 (random w)\<rparr>"
  using assms
  by (simp add: calculateRealStats_def Let_def split_def calculatePercentageChange_world
      getCampaigns_world numeral_eq_Suc)

lemma calculateRealStats_items:
  "campaigns_item (snd (calculateRealStats w)) = campaigns_item w"
  "config_item (snd (calculateRealStats w)) = config_item w"
  by (cases "fst (getCampaigns w)";
      simp add: calculateRealStats_def Let_def split_def calculatePercentageChange_world
        getCampaigns_world)+

text \<open>
  Claim C1, as stated, fails: a nested value that is present and zero does not win over a
  nonzero flat counter. For a campaign with \<^verbatim>\<open>stats.views = 0\<close> and \<^verbatim>\<open>views_count = 7\<close> the engine
  counts 7 views, where the rule "nested value if present" gives 0.
\<close>

theorem stats_read_counterexample:
  "map_sum id (\<lambda>r. metric_value (totalViews r))
      (fst (calculateRealStats (example_world [zero_nested_campaign] (sconst 0)))) = Inr 7
   \<and> fst (getCampaigns (example_world [zero_nested_campaign] (sconst 0))) = Expected [zero_nested_campaign]
   \<and> sum_list (map (\<lambda>c. read_nested_else_flat (map_option views (stats c)) (views_count c))
        [zero_nested_campaign]) = 0"
proof -
  have s: "fst (getCampaigns (example_world [zero_nested_campaign] (sconst 0))) =
      Expected [zero_nested_campaign]"
    by (simp add: getCampaigns_example_world)
  obtain r where "fst (calculateRealStats (example_world [zero_nested_campaign] (sconst 0))) = Inr r"
    and "metric_value (totalViews r) =
     sum_list (map (\<lambda>c. read_nonzero_nested_else_flat (map_option views (stats c)) (views_count c))
       [zero_nested_campaign])"
    using calculateRealStats_values [OF s] by blast
  then have "map_sum id (\<lambda>r. metric_value (totalViews r))
      (fst (calculateRealStats (example_world [zero_nested_campaign] (sconst 0)))) = Inr 7"
    by (simp add: zero_nested_campaign_def read_nonzero_nested_else_flat_def)
  moreover have "sum_list (map (\<lambda>c. read_nested_else_flat (map_option views (stats c)) (views_count c))
        [zero_nested_campaign]) = 0"
    by (simp add: zero_nested_campaign_def read_nested_else_flat_def)
  ultimately show ?thesis
    using s by blast
qed

text \<open>
  Claim C1, amended. For every stored campaign sequence the stats engine returns a result,
  and each of its sums reads a campaign as the nested value when it is present and not
  zero, else the flat counter (the budget, for the spend), else zero. For two stored
  campaigns that hold views 10 and 20 and clicks 1 and 2, each in the nested or in the flat
  shape, the total of views is 30 and the total of clicks is 3.
\<close>

theorem stats_read_nonzero:
  assumes "fst (getCampaigns w) = Expected cs"
  shows "\<exists>r. fst (calculateRealStats w) = Inr r
   \<and> metric_value (totalViews r) =
     sum_list (map (\<lambda>c. read_nonzero_nested_else_flat (map_option views (stats c)) (views_count c)) cs)
   \<and> metric_value (totalClicks r) =
     sum_list (map (\<lambda>c. read_nonzero_nested_else_flat (map_option clicks (stats c)) (clicks_count c)) cs)
   \<and> metric_value (totalConversions r) =
     sum_list (map (\<lambda>c. read_nonzero_nested_else_flat (map_option conversions (stats c)) (conversions_count c)) cs)
   \<and> metric_value (totalSpend r) =
     sum_list (map (\<lambda>c. read_nonzero_nested_else_flat (map_option spend (stats c)) (Some (budget c))) cs)
   \<and> (\<forall>c1 c2.
        cs = [c1, c2]
        \<and> (map_option views (stats c1) = Some 10 \<or> stats c1 = None \<and> views_count c1 = Some 10)
        \<and> (map_option views (stats c2) = Some 20 \<or> stats c2 = None \<and> views_count c2 = Some 20)
        \<and> (map_option clicks (stats c1) = Some 1 \<or> stats c1 = None \<and> clicks_count c1 = Some 1)
        \<and> (map_option clicks (stats c2) = Some 2 \<or> stats c2 = None \<and> clicks_count c2 = Some 2)
        \<longrightarrow> metric_value (totalViews r) = 30 \<and> metric_value (totalClicks r) = 3)"
proof -
  obtain r where r: "fst (calculateRealStats w) = Inr r"
    and v: "metric_value (totalViews r) =
     sum_list (map (\<lambda>c. read_nonzero_nested_else_flat (map_option views (stats c)) (views_count c)) cs)"
    and k: "metric_value (totalClicks r) =
     sum_list (map (\<lambda>c. read_nonzero_nested_else_flat (map_option clicks (stats c)) (clicks_count c)) cs)"
    and n: "metric_value (totalConversions r) =
     sum_list (map (\<lambda>c. read_nonzero_nested_else_flat (map_option conversions (stats c)) (conversions_count c)) cs)"
    and s: "metric_value (totalSpend r) =
     sum_list (map (\<lambda>c. read_nonzero_nested_else_flat (map_option spend (stats c)) (Some (budget c))) cs)"
    using calculateRealStats_values [OF assms] by blast
  have p5: "metric_value (totalViews r) = 30 \<and> metric_value (totalClicks r) = 3"
    if "cs = [c1, c2]"
      and "map_option views (stats c1) = Some 10 \<or> stats c1 = None \<and> views_count c1 = Some 10"
      and "map_option views (stats c2) = Some 20 \<or> stats c2 = None \<and> views_count c2 = Some 20"
      and "map_option clicks (stats c1) = Some 1 \<or> stats c1 = None \<and> clicks_count c1 = Some 1"
      and "map_option clicks (stats c2) = Some 2 \<or> stats c2 = None \<and> clicks_count c2 = Some 2"
    for c1 c2
  proof -
    have v1: "read_nonzero_nested_else_flat (map_option views (stats c1)) (views_count c1) = 10"
      using that(2) by (auto simp add: read_nonzero_nested_else_flat_def)
    have v2: "read_nonzero_nested_else_flat (map_option views (stats c2)) (views_count c2) = 20"
      using that(3) by (auto simp add: read_nonzero_nested_else_flat_def)
    have k1: "read_nonzero_nested_else_flat (map_option clicks (stats c1)) (clicks_count c1) = 1"
      using that(4) by (auto simp add: read_nonzero_nested_else_flat_def)
    have k2: "read_nonzero_nested_else_flat (map_option clicks (stats c2)) (clicks_count c2) = 2"
      using that(5) by (auto simp add: read_nonzero_nested_else_flat_def)
    show ?thesis
      by (simp add: v k that(1) v1 v2 k1 k2)
  qed
  from r v k n s p5 show ?thesis by blast
qed

theorem stats_read_nonzero_witness:
  "map_sum id (\<lambda>r. metric_value (totalViews r)) (fst (calculateRealStats
      (example_world [nested_campaign 101 10 1, flat_campaign 102 20 2] (sconst 0)))) = Inr 30
   \<and> map_sum id (\<lambda>r. metric_value (totalClicks r)) (fst (calculateRealStats
      (example_world [nested_campaign 101 10 1, flat_campaign 102 20 2] (sconst 0)))) = Inr 3"
proof -
  have s: "fst (getCampaigns (example_world [nested_campaign 101 10 1, flat_campaign 102 20 2] (sconst 0))) =
      Expected [nested_campaign 101 10 1, flat_campaign 102 20 2]"
    by (simp add: getCampaigns_example_world)
  obtain r where "fst (calculateRealStats
      (example_world [nested_campaign 101 10 1, flat_campaign 102 20 2] (sconst 0))) = Inr r"
    and "\<forall>c1 c2.
        [nested_campaign 101 10 1, flat_campaign 102 20 2] = [c1, c2]
        \<and> (map_option views (stats c1) = Some 10 \<or> stats c1 = None \<and> views_count c1 = Some 10)
        \<and> (map_option views (stats c2) = Some 20 \<or> stats c2 = None \<and> views_count c2 = Some 20)
        \<and> (map_option clicks (stats c1) = Some 1 \<or> stats c1 = None \<and> clicks_count c1 = Some 1)
        \<and> (map_option clicks (stats c2) = Some 2 \<or> stats c2 = None \<and> clicks_count c2 = Some 2)
        \<longrightarrow> metric_value (totalViews r) = 30 \<and> metric_value (totalClicks r) = 3"
    using stats_read_nonzero [OF s] by blast
  then show ?thesis
    by (simp add: nested_campaign_def flat_campaign_def example_campaign_def)
qed

lemma getCampaigns_changing_world:
  "getCampaigns changing_world = (Expected (map example_campaign [1..<21]), changing_world)"
  by (simp add: changing_world_def example_world_def getCampaigns_Stringified JSON_stringify_def)

lemma change_totalCampaigns:
  assumes "fst (getCampaigns w) = Expected cs"
  shows "map_sum id (\<lambda>r. change (totalCampaigns r)) (fst (calculateRealStats w)) =
     Inr (fst (calculatePercentageChange (of_nat (length cs)) (snd (getCampaigns w))))"
  using assms by (simp add: calculateRealStats_def Let_def split_def)

text \<open>
  Claim C9. For every stored campaign sequence, calling the stats engine twice in succession
  gives two results with the same value for each of the six metrics, and the call leaves
  both stored entries as they were. More generally the six values are the same in any two
  worlds whose campaign entry is the same, whatever their random numbers are. (In the
  example that follows, the change figure of the two calls differs, 18 and 0.)
\<close>

theorem stats_values_deterministic:
  assumes "fst (getCampaigns w) = Expected cs"
  shows "\<exists>r1 r2. fst (calculateRealStats w) = Inr r1
   \<and> fst (calculateRealStats (snd (calculateRealStats w))) = Inr r2
   \<and> metric_value (totalCampaigns r2) = metric_value (totalCampaigns r1)
   \<and> metric_value (activeCampaigns r2) = metric_value (activeCampaigns r1)
   \<and> metric_value (totalViews r2) = metric_value (totalViews r1)
   \<and> metric_value (totalClicks r2) = metric_value (totalClicks r1)
   \<and> metric_value (totalConversions r2) = metric_value (totalConversions r1)
   \<and> metric_value (totalSpend r2) = metric_value (totalSpend r1)
   \<and> campaigns_item (snd (calculateRealStats w)) = campaigns_item w
   \<and> config_item (snd (calculateRealStats w)) = config_item w
   \<and> (campaigns_item w' = campaigns_item w \<longrightarrow>
        (\<exists>r'. fst (calculateRealStats w') = Inr r'
         \<and> metric_value (totalCampaigns r') = metric_value (totalCampaigns r1)
         \<and> metric_value (activeCampaigns r') = metric_value (activeCampaigns r1)
         \<and> metric_value (totalViews r') = metric_value (totalViews r1)
         \<and> metric_value (totalClicks r') = metric_value (totalClicks r1)
         \<and> metric_value (totalConversions r') = metric_value (totalConversions r1)
         \<and> metric_value (totalSpend r') = metric_value (totalSpend r1)))"
proof -
  have same: "fst (getCampaigns (snd (calculateRealStats w))) = Expected cs"
    using getCampaigns_same_item [OF calculateRealStats_items(1), of w] assms by simp
  have other: "fst (getCampaigns w') = Expected cs" if "campaigns_item w' = campaigns_item w"
    using getCampaigns_same_item [OF that] assms by simp
  obtain r1 where r1: "fst (calculateRealStats w) = Inr r1
   \<and> metric_value (totalCampaigns r1) = of_nat (length cs)
   \<and> metric_value (activeCampaigns r1) = of_nat (length (filter (\<lambda>c. status c = Active) cs))
   \<and> metric_value (totalViews r1) =
     sum_list (map (\<lambda>c. read_nonzero_nested_else_flat (map_option views (stats c)) (views_count c)) cs)
   \<and> metric_value (totalClicks r1) =
     sum_list (map (\<lambda>c. read_nonzero_nested_else_flat (map_option clicks (stats c)) (clicks_count c)) cs)
   \<and> metric_value (totalConversions r1) =
     sum_list (map (\<lambda>c. read_nonzero_nested_else_flat (map_option conversions (stats c)) (conversions_count c)) cs)
   \<and> metric_value (totalSpend r1) =
     sum_list (map (\<lambda>c. read_nonzero_nested_else_flat (map_option spend (stats c)) (Some (budget c))) cs)"
    using calculateRealStats_values [OF assms] by blast
  obtain r2 where r2: "fst (calculateRealStats (snd (calculateRealStats w))) = Inr r2
   \<and> metric_value (totalCampaigns r2) = of_nat (length cs)
   \<and> metric_value (activeCampaigns r2) = of_nat (length (filter (\<lambda>c. status c = Active) cs))
   \<and> metric_value (totalViews r2) =
     sum_list (map (\<lambda>c. read_nonzero_nested_else_flat (map_option views (stats c)) (views_count c)) cs)
   \<and> metric_value (totalClicks r2) =
     sum_list (map (\<lambda>c. read_nonzero_nested_else_flat (map_option clicks (stats c)) (clicks_count c)) cs)
   \<and> metric_value (totalConversions r2) =
     sum_list (map (\<lambda>c. read_nonzero_nested_else_flat (map_option conversions (stats c)) (conversions_count c)) cs)
   \<and> metric_value (totalSpend r2) =
     sum_list (map (\<lambda>c. read_nonzero_nested_else_flat (map_option spend (stats c)) (Some (budget c))) cs)"
    using calculateRealStats_values [OF same] by blast
  have third: "\<exists>r'. fst (calculateRealStats w') = Inr r'
         \<and> metric_value (totalCampaigns r') = metric_value (totalCampaigns r1)
         \<and> metric_value (activeCampaigns r') = metric_value (activeCampaigns r1)
         \<and> metric_value (totalViews r') = metric_value (totalViews r1)
         \<and> metric_value (totalClicks r') = metric_value (totalClicks r1)
         \<and> metric_value (totalConversions r') = metric_value (totalConversions r1)
         \<and> metric_value (totalSpend r') = metric_value (totalSpend r1)"
    if "campaigns_item w' = campaigns_item w"
    using calculateRealStats_values [OF other [OF that]] r1 by auto
  have "fst (calculateRealStats w) = Inr r1
   \<and> fst (calculateRealStats (snd (calculateRealStats w))) = Inr r2
   \<and> metric_value (totalCampaigns r2) = metric_value (totalCampaigns r1)
   \<and> metric_value (activeCampaigns r2) = metric_value (activeCampaigns r1)
   \<and> metric_value (totalViews r2) = metric_value (totalViews r1)
   \<and> metric_value (totalClicks r2) = metric_value (totalClicks r1)
   \<and> metric_value (totalConversions r2) = metric_value (totalConversions r1)
   \<and> metric_value (totalSpend r2) = metric_value (totalSpend r1)
   \<and> campaigns_item (snd (calculateRealStats w)) = campaigns_item w
   \<and> config_item (snd (calculateRealStats w)) = config_item w
   \<and> (campaigns_item w' = campaigns_item w \<longrightarrow>
        (\<exists>r'. fst (calculateRealStats w') = Inr r'
         \<and> metric_value (totalCampaigns r') = metric_value (totalCampaigns r1)
         \<and> metric_value (activeCampaigns r') = metric_value (activeCampaigns r1)
         \<and> metric_value (totalViews r') = metric_value (totalViews r1)
         \<and> metric_value (totalClicks r') = metric_value (totalClicks r1)
         \<and> metric_value (totalConversions r') = metric_value (totalConversions r1)
         \<and> metric_value (totalSpend r') = metric_value (totalSpend r1)))"
    using r1 r2 third by (simp add: calculateRealStats_items)
  then show ?thesis by blast
qed

theorem stats_values_deterministic_witness:
  "map_sum id (\<lambda>r. metric_value (totalCampaigns r)) (fst (calculateRealStats changing_world)) = Inr 20
   \<and> map_sum id (\<lambda>r. metric_value (totalCampaigns r))
       (fst (calculateRealStats (snd (calculateRealStats changing_world)))) = Inr 20
   \<and> map_sum id (\<lambda>r. change (totalCampaigns r)) (fst (calculateRealStats changing_world)) = Inr 18
   \<and> map_sum id (\<lambda>r. change (totalCampaigns r))
       (fst (calculateRealStats (snd (calculateRealStats changing_world)))) = Inr 0"
proof -
  have g: "fst (getCampaigns changing_world) = Expected (map example_campaign [1..<21])"
    by (simp add: getCampaigns_changing_world)
  have r0: "random changing_world = replicate 6 (1 / 2) @- sconst 0"
    by (simp add: changing_world_def)
  have r1: "random (snd (calculateRealStats changing_world)) = sconst 0"
    by (simp add: calculateRealStats_world [OF g] getCampaigns_changing_world r0 sdrop_shift)
  have s1: "fst (getCampaigns (snd (calculateRealStats changing_world))) =
      Expected (map example_campaign [1..<21])"
    using getCampaigns_same_item [OF calculateRealStats_items(1), of changing_world] g by simp
  have c0: "map_sum id (\<lambda>r. change (totalCampaigns r)) (fst (calculateRealStats changing_world)) = Inr 18"
    by (simp add: change_totalCampaigns [OF g] getCampaigns_changing_world calculatePercentageChange_def
        Math_random_def Math_round_def r0 Let_def floor_eq_iff)
  have c1: "map_sum id (\<lambda>r. change (totalCampaigns r))
       (fst (calculateRealStats (snd (calculateRealStats changing_world)))) = Inr 0"
    by (simp add: change_totalCampaigns [OF s1] calculatePercentageChange_def
        Math_random_def Math_round_def r1 getCampaigns_world Let_def floor_eq_iff)
  obtain q1 q2 where "fst (calculateRealStats changing_world) = Inr q1"
    and "fst (calculateRealStats (snd (calculateRealStats changing_world))) = Inr q2"
    and "metric_value (totalCampaigns q2) = metric_value (totalCampaigns q1)"
    using stats_values_deterministic [OF g, of changing_world] by blast
  moreover obtain q where "fst (calculateRealStats changing_world) = Inr q"
    and "metric_value (totalCampaigns q) = of_nat (length (map example_campaign [1..<21]))"
    using calculateRealStats_values [OF g] by blast
  ultimately have "map_sum id (\<lambda>r. metric_value (totalCampaigns r)) (fst (calculateRealStats changing_world)) = Inr 20
   \<and> map_sum id (\<lambda>r. metric_value (totalCampaigns r))
       (fst (calculateRealStats (snd (calculateRealStats changing_world)))) = Inr 20"
    by simp
  with c0 c1 show ?thesis by simp
qed

subsection \<open>Errors of the service\<close>

lemma getCampaignById_result:
  assumes "fst (getCampaigns w) = Expected cs"
  shows "fst (getCampaignById i w) = Inr (find (\<lambda>c. campaign_id c = i) cs)"
  using assms by (simp add: getCampaignById_def split_def Let_def)

lemma updateCampaign_returns:
  assumes "fst (getCampaigns w) = Expected cs"
  shows "\<exists>u. fst (updateCampaign i data w) = Inr u"
  using assms by (simp add: updateCampaign_def Let_def split_def)

text \<open>
  Claim C3, as stated, fails: when the remote call answers 404 and the local store holds a
  campaign with the id, \<open>getCampaign\<close> returns the local campaign and throws nothing.
\<close>

theorem remote_404_counterexample:
  "fst (campaignService_getCampaign (Inl (AxiosError (Some 404))) ''101''
          (example_world [example_campaign 101] (sconst 0))) = Inr (example_campaign 101)"
  by (simp add: campaignService_getCampaign_def getCampaignById_def getCampaigns_example_world
      example_campaign_id toString_examples Let_def)

text \<open>
  Claim C3, amended. When the remote call underlying get, update or delete fails, with a 404
  or with any other error, the service falls back to the local store: it throws
  \<^verbatim>\<open>Error('Campaign not found')\<close> exactly when the local store holds no campaign with the id,
  and returns the local result otherwise. The outcome for a 404 is the outcome for any other
  failure of the remote call.
\<close>

theorem remote_failure_falls_back:
  assumes "fst (getCampaigns w) = Expected cs"
  shows "fst (campaignService_getCampaign (Inl e) i w) =
     (case find (\<lambda>c. campaign_id c = i) cs of
        None \<Rightarrow> Inl (Error ''Campaign not found'')
      | Some c \<Rightarrow> Inr c)
   \<and> (\<exists>u. fst (updateCampaign i data w) = Inr u
        \<and> fst (campaignService_updateCampaign (Inl e) i data w) =
            (case u of
               None \<Rightarrow> Inl (Error ''Campaign not found'')
             | Some c \<Rightarrow> Inr c))
   \<and> (fst (campaignService_updateCampaign (Inl e) i data w) = Inl (Error ''Campaign not found'')) =
     (\<not> (\<exists>c\<in>set cs. campaign_id c = i))
   \<and> fst (campaignService_deleteCampaign (Inl e) i w) =
     (if \<exists>c\<in>set cs. campaign_id c = i then Inr ()
      else Inl (Error ''Campaign not found''))
   \<and> campaignService_getCampaign (Inl (AxiosError (Some 404))) i w =
       campaignService_getCampaign (Inl e) i w
   \<and> campaignService_updateCampaign (Inl (AxiosError (Some 404))) i data w =
       campaignService_updateCampaign (Inl e) i data w
   \<and> campaignService_deleteCampaign (Inl (AxiosError (Some 404))) i w =
       campaignService_deleteCampaign (Inl e) i w"
proof -
  have g: "fst (campaignService_getCampaign (Inl e) i w) =
     (case find (\<lambda>c. campaign_id c = i) cs of
        None \<Rightarrow> Inl (Error ''Campaign not found'')
      | Some c \<Rightarrow> Inr c)"
    using getCampaignById_result [OF assms, of i]
    by (cases "getCampaignById i w") (simp add: campaignService_getCampaign_def split: option.splits)
  obtain u where r: "fst (updateCampaign i data w) = Inr u"
    using updateCampaign_returns [OF assms] by blast
  have u: "fst (campaignService_updateCampaign (Inl e) i data w) =
            (case u of
               None \<Rightarrow> Inl (Error ''Campaign not found'')
             | Some c \<Rightarrow> Inr c)"
    using r
    by (cases "updateCampaign i data w") (simp add: campaignService_updateCampaign_def split: option.splits)
  have u': "(fst (campaignService_updateCampaign (Inl e) i data w) = Inl (Error ''Campaign not found'')) =
     (\<not> (\<exists>c\<in>set cs. campaign_id c = i))"
    using updateCampaign_None [OF assms, of i data] r by (auto simp add: u split: option.splits)
  have d: "fst (campaignService_deleteCampaign (Inl e) i w) =
     (if \<exists>c\<in>set cs. campaign_id c = i then Inr ()
      else Inl (Error ''Campaign not found''))"
    using deleteCampaign_result [OF assms, of i]
    by (cases "deleteCampaign i w") (auto simp add: campaignService_deleteCampaign_def)
  have same: "campaignService_getCampaign (Inl (AxiosError (Some 404))) i w =
       campaignService_getCampaign (Inl e) i w
   \<and> campaignService_updateCampaign (Inl (AxiosError (Some 404))) i data w =
       campaignService_updateCampaign (Inl e) i data w
   \<and> campaignService_deleteCampaign (Inl (AxiosError (Some 404))) i w =
       campaignService_deleteCampaign (Inl e) i w"
    by (simp add: campaignService_getCampaign_def campaignService_updateCampaign_def
        campaignService_deleteCampaign_def)
  from g r u u' d same show ?thesis by blast
qed

theorem remote_failure_falls_back_witness:
  "fst (campaignService_getCampaign (Inl (AxiosError (Some 404))) ''102''
          (example_world [example_campaign 101] (sconst 0))) = Inl (Error ''Campaign not found'')
   \<and> fst (campaignService_deleteCampaign (Inl (AxiosError (Some 404))) ''102''
          (example_world [example_campaign 101] (sconst 0))) = Inl (Error ''Campaign not found'')
   \<and> fst (campaignService_deleteCampaign (Inl (AxiosError (Some 404))) ''101''
          (example_world [example_campaign 101] (sconst 0))) = Inr ()"
proof -
  have s: "fst (getCampaigns (example_world [example_campaign 101] (sconst 0))) =
      Expected [example_campaign 101]"
    by (simp add: getCampaigns_example_world)
  show ?thesis
    using remote_failure_falls_back [OF s, of "AxiosError (Some 404)" "''102''"]
      remote_failure_falls_back [OF s, of "AxiosError (Some 404)" "''101''"]
    by (simp add: example_campaign_id toString_examples)
qed

end
